theory Spec2Isabelle
  imports Main "HOL-Library.Word" "HOL-Library.Signed_Division"
begin

section \<open>Hexagon DMA runtime: descriptor pool and transfer wrapper\<close>

text \<open>
  A shallow embedding of \<^verbatim>\<open>src/runtime/hexagon_dma.cpp\<close>. Addresses are natural
  numbers and \<open>0\<close> is \<^verbatim>\<open>NULL\<close>. The calls that leave the file (heap allocation,
  cache locking, the DMA driver, the engine pool) are inputs of the model: their results
  are fields of an environment record, and the calls made are recorded as a list of events.
  Messages written with \<^verbatim>\<open>debug\<close> are left out; a message written with \<^verbatim>\<open>error\<close>
  is an event, and the error handler it reaches is taken to return, as the
  \<^verbatim>\<open>return\<close> statements that follow each message expect.
\<close>

type_synonym ptr = nat

subsection \<open>Integers, formats and structures\<close>

text \<open>
  \<^verbatim>\<open>int\<close> and \<^verbatim>\<open>int32_t\<close> are 32-bit words read as two's complement (\<open>sint\<close>),
  \<^verbatim>\<open>uint16_t\<close> is a 16-bit word. Arithmetic on \<^verbatim>\<open>int\<close> wraps around in the model.
  A \<^verbatim>\<open>uint16_t\<close> operand is promoted to \<^verbatim>\<open>int\<close> before arithmetic, and a value
  stored in a 16-bit field keeps its low 16 bits.
\<close>

type_synonym int32 = "32 word"
type_synonym uint16 = "16 word"

definition promote :: "uint16 \<Rightarrow> int32" where
  "promote x = ucast x"

definition to_uint16 :: "int32 \<Rightarrow> uint16" where
  "to_uint16 x = ucast x"

text \<open>
  Modelled from the spec: the enumeration \<^verbatim>\<open>t_eDmaFmt\<close> is declared in
  \<^verbatim>\<open>mini_hexagon_dma.h\<close>, which is not among the sources. Its values here are the
  thirteen formats this file names: raw data, and for each of the four families the whole
  frame, the luma plane (\<^verbatim>\<open>_Y\<close>) and the chroma plane (\<^verbatim>\<open>_UV\<close>).
\<close>

datatype t_eDmaFmt =
    eDmaFmt_RawData
  | eDmaFmt_NV12 | eDmaFmt_NV12_Y | eDmaFmt_NV12_UV
  | eDmaFmt_P010 | eDmaFmt_P010_Y | eDmaFmt_P010_UV
  | eDmaFmt_TP10 | eDmaFmt_TP10_Y | eDmaFmt_TP10_UV
  | eDmaFmt_NV124R | eDmaFmt_NV124R_Y | eDmaFmt_NV124R_UV

text \<open>
  Modelled from the spec: the enumeration \<^verbatim>\<open>halide_hexagon_image_fmt_t\<close> is declared in
  \<^verbatim>\<open>HalideRuntimeHexagonDma.h\<close>, which is not among the sources. Its values here are
  the image formats the switch of \<^verbatim>\<open>halide_hexagon_get_dma_format\<close> names, and one
  more value for any tag the switch does not name.
\<close>

datatype halide_hexagon_image_fmt_t =
    halide_hexagon_fmt_RawData
  | halide_hexagon_fmt_NV12 | halide_hexagon_fmt_NV12_Y | halide_hexagon_fmt_NV12_UV
  | halide_hexagon_fmt_P010 | halide_hexagon_fmt_P010_Y | halide_hexagon_fmt_P010_UV
  | halide_hexagon_fmt_TP10 | halide_hexagon_fmt_TP10_Y | halide_hexagon_fmt_TP10_UV
  | halide_hexagon_fmt_NV124R | halide_hexagon_fmt_NV124R_Y | halide_hexagon_fmt_NV124R_UV
  | halide_hexagon_fmt_unlisted

text \<open>
  Modelled from the spec: the status codes are an enumeration of \<^verbatim>\<open>HalideRuntime.h\<close>,
  which is not among the sources. The values here are the codes this file returns.
\<close>

datatype halide_error_code =
    halide_error_code_success
  | halide_error_code_generic_error
  | halide_error_code_out_of_memory
  | halide_error_code_copy_to_device_failed
  | halide_error_code_device_malloc_failed
  | halide_error_code_device_wrap_native_failed
  | halide_error_code_device_buffer_copy_failed

record dma_device_handle =
  buffer :: ptr
  offset_rdx :: uint16
  offset_rdy :: uint16
  offset_wrx :: uint16
  offset_wry :: uint16
  dma_engine :: ptr
  frame_width :: int32
  frame_height :: int32
  frame_stride :: int32
  is_ubwc :: bool
  is_write :: bool
  fmt :: t_eDmaFmt

text \<open>
  Modelled from the spec: \<^verbatim>\<open>halide_dimension_t\<close> and \<^verbatim>\<open>halide_buffer_t\<close> are
  declared in \<^verbatim>\<open>HalideRuntime.h\<close>, which is not among the sources. The field
  \<^verbatim>\<open>min\<close> of a dimension is \<open>min_dim\<close> here.
\<close>

record halide_dimension_t =
  min_dim :: int32
  extent :: int32
  stride :: int32

datatype halide_device_interface_t = hexagon_dma_device_interface | foreign_device_interface nat

text \<open>
  The fields of \<^verbatim>\<open>halide_buffer_t\<close> this file reads. \<open>device\<close> is \<open>None\<close> for the
  handle \<open>0\<close> and the handle structure it points to otherwise; \<^verbatim>\<open>dimensions\<close> is the
  length of \<open>dim\<close>.
\<close>

record halide_buffer_t =
  device :: "dma_device_handle option"
  device_interface :: "halide_device_interface_t option"
  host :: ptr
  dim :: "halide_dimension_t list"

definition dimensions :: "halide_buffer_t \<Rightarrow> int" where
  "dimensions b = int (length (dim b))"

text \<open>
  Modelled from the spec: the two structures and the transfer direction below are declared
  in \<^verbatim>\<open>mini_hexagon_dma.h\<close>, which is not among the sources. The fields are those the
  wrapper assigns; the \<^verbatim>\<open>u16\<close> fields are 16 bits wide, as their names and the casts
  at lines 231 and 232 say.
\<close>

record t_StDmaWrapper_RoiAlignInfo =
  u16W :: uint16
  u16H :: uint16

datatype t_eDmaWrapper_TransationType = eDmaWrapper_L2ToDdr | eDmaWrapper_DdrToL2

record t_StDmaWrapper_DmaTransferSetup =
  eFmt :: t_eDmaFmt
  u16FrameW :: uint16
  u16FrameH :: uint16
  u16FrameStride :: uint16
  u16RoiW :: uint16
  u16RoiH :: uint16
  u16RoiStride :: uint16
  bIsFmtUbwc :: bool
  bUse16BitPaddingInL2 :: bool
  pDescBuf :: ptr
  pTcmDataBuf :: ptr
  pFrameBuf :: ptr
  eTransferType :: t_eDmaWrapper_TransationType
  u16RoiX :: uint16
  u16RoiY :: uint16

text \<open>
  Modelled from the spec: \<^verbatim>\<open>QURT_EOK\<close>, the success status of the driver calls, is a
  macro of a header that is not among the sources; it is zero.
\<close>

definition QURT_EOK :: int32 where
  "QURT_EOK = 0"

text \<open>
  A failed \<^verbatim>\<open>halide_assert\<close> aborts. Reading outside an array, through a null pointer,
  dividing by zero and leaving a function without a value are undefined behaviour.
\<close>

datatype failure = Assert_failed | Undefined_behaviour

definition seq :: "failure + 'a \<Rightarrow> ('a \<Rightarrow> failure + 'b) \<Rightarrow> failure + 'b" where
  "seq m f = (case m of Inl e \<Rightarrow> Inl e | Inr x \<Rightarrow> f x)"

definition halide_assert :: "bool \<Rightarrow> failure + unit" where
  "halide_assert c = (if c then Inr () else Inl Assert_failed)"

definition dim_at :: "halide_buffer_t \<Rightarrow> nat \<Rightarrow> failure + halide_dimension_t" where
  "dim_at b i = (if i < length (dim b) then Inr (dim b ! i) else Inl Undefined_behaviour)"

text \<open>The calls that leave the file, with their arguments and results.\<close>

datatype event =
    Malloc ptr
  | Free ptr
  | HAP_cache_lock nat ptr
  | HAP_cache_unlock ptr
  | Error_msg string
  | Allocate_from_dma_pool ptr ptr
  | DmaTransferSetup ptr t_StDmaWrapper_DmaTransferSetup int32
  | Move ptr int32
  | Wait ptr int32
  | Free_to_dma_pool ptr ptr halide_error_code

subsection \<open>The descriptor pool\<close>

text \<open>
  \<^verbatim>\<open>struct desc_pool { void *descriptor; bool used; struct desc_pool *next; }\<close>.
  The chain of \<^verbatim>\<open>next\<close> pointers starting at the global \<^verbatim>\<open>dma_desc_pool\<close> is a list
  of nodes; \<open>node_addr\<close> is the address \<^verbatim>\<open>malloc\<close> returned for the node, which is what
  \<^verbatim>\<open>free\<close> is later called with.
\<close>

record desc_pool_t =
  node_addr :: ptr
  descriptor :: ptr
  used :: bool

text \<open>
  The macro \<^verbatim>\<open>descriptor_size\<close>. The second descriptor of a pair is the locked address
  plus this size.
\<close>

definition descriptor_size :: nat where
  "descriptor_size = 64"

text \<open>
  The results of the three allocation calls one call of \<^verbatim>\<open>desc_pool_get\<close> can make:
  \<^verbatim>\<open>malloc\<close> for the first node, \<^verbatim>\<open>HAP_cache_lock\<close>, \<^verbatim>\<open>malloc\<close> for the second node.
\<close>

record alloc_env =
  first_node :: ptr
  locked :: ptr
  second_node :: ptr

text \<open>The walk of \<^verbatim>\<open>desc_pool_get\<close> (lines 77 to 84): the first node not in use is taken.\<close>

fun walk_pool :: "desc_pool_t list \<Rightarrow> (ptr \<times> desc_pool_t list) option" where
  "walk_pool [] = None"
| "walk_pool (temp # rest) =
     (if \<not> used temp then Some (descriptor temp, temp\<lparr>used := True\<rparr> # rest)
      else (case walk_pool rest of
              None \<Rightarrow> None
            | Some (d, rest') \<Rightarrow> Some (d, temp # rest')))"

text \<open>
  \<^verbatim>\<open>desc_pool_get\<close>: the returned pointer (\<open>0\<close> when it fails), the pool afterwards and
  the allocation calls made. When the walk ends, \<^verbatim>\<open>prev\<close> is the last node, or the list
  was empty and \<^verbatim>\<open>dma_desc_pool\<close> is \<^verbatim>\<open>NULL\<close>: in both cases the new node goes to the end.
\<close>

definition desc_pool_get ::
  "alloc_env \<Rightarrow> desc_pool_t list \<Rightarrow> ptr \<times> desc_pool_t list \<times> event list" where
  "desc_pool_get env pool =
     (case walk_pool pool of
        Some (d, pool') \<Rightarrow> (d, pool', [])
      | None \<Rightarrow>
          (let temp = first_node env in
           if temp = 0 then (0, pool, [Malloc 0, Error_msg ''malloc failed''])
           else
             let desc = locked env in
             if desc = 0
             then (0, pool,
                   [Malloc temp, HAP_cache_lock (descriptor_size * 2) 0, Free temp,
                    Error_msg ''HAP_cache_lock failed''])
             else
               let nxt = second_node env;
                   tail = (if nxt \<noteq> 0
                           then [\<lparr>node_addr = nxt, descriptor = desc + descriptor_size,
                                  used = False\<rparr>]
                           else [])
               in (desc,
                   pool @ \<lparr>node_addr = temp, descriptor = desc, used = True\<rparr> # tail,
                   [Malloc temp, HAP_cache_lock (descriptor_size * 2) desc, Malloc nxt])))"

text \<open>The loop of \<^verbatim>\<open>desc_pool_put\<close> (lines 124 to 129): it never stops early.\<close>

fun mark_free :: "ptr \<Rightarrow> desc_pool_t list \<Rightarrow> desc_pool_t list" where
  "mark_free desc [] = []"
| "mark_free desc (temp # rest) =
     (if descriptor temp = desc then temp\<lparr>used := False\<rparr> else temp) # mark_free desc rest"

definition desc_pool_put :: "desc_pool_t list \<Rightarrow> ptr \<Rightarrow> failure + desc_pool_t list" where
  "desc_pool_put pool desc =
     (if desc = 0 then Inl Assert_failed else Inr (mark_free desc pool))"

text \<open>
  \<^verbatim>\<open>desc_pool_free\<close>: each round of the loop takes one node, unlocks its descriptor when
  that is not \<^verbatim>\<open>NULL\<close>, frees it, and frees the node after it (when there is one)
  without looking at its descriptor. The result is the list of calls made; the function
  does not reset the global \<^verbatim>\<open>dma_desc_pool\<close>.
\<close>

fun desc_pool_free :: "desc_pool_t list \<Rightarrow> event list" where
  "desc_pool_free [] = []"
| "desc_pool_free [temp2] =
     (if descriptor temp2 \<noteq> 0 then [HAP_cache_unlock (descriptor temp2)] else [])
     @ [Free (node_addr temp2)]"
| "desc_pool_free (temp2 # temp3 # rest) =
     (if descriptor temp2 \<noteq> 0 then [HAP_cache_unlock (descriptor temp2)] else [])
     @ [Free (node_addr temp2), Free (node_addr temp3)]
     @ desc_pool_free rest"

subsection \<open>The transfer wrapper\<close>

text \<open>
  What one call of \<^verbatim>\<open>halide_hexagon_dma_wrapper\<close> gets from outside the file: the two
  alignment queries, the allocation results for \<^verbatim>\<open>desc_pool_get\<close>, the engine pool and
  the three driver calls. The walk-size query returns the structure it updates in place;
  the stride query only reads it. Each call is made at most once, so its result is a
  function of its arguments.
\<close>

record dma_driver =
  nDmaWrapper_GetRecommendedWalkSize ::
    "t_eDmaFmt \<Rightarrow> bool \<Rightarrow> t_StDmaWrapper_RoiAlignInfo \<Rightarrow> t_StDmaWrapper_RoiAlignInfo"
  nDmaWrapper_GetRecommendedIntermBufStride ::
    "t_eDmaFmt \<Rightarrow> t_StDmaWrapper_RoiAlignInfo \<Rightarrow> bool \<Rightarrow> int32"
  allocator :: alloc_env
  halide_hexagon_allocate_from_dma_pool :: "ptr \<Rightarrow> ptr"
  nDmaWrapper_DmaTransferSetup :: "ptr \<Rightarrow> t_StDmaWrapper_DmaTransferSetup \<Rightarrow> int32"
  nDmaWrapper_Move :: "ptr \<Rightarrow> int32"
  nDmaWrapper_Wait :: "ptr \<Rightarrow> int32"
  halide_hexagon_free_to_dma_pool :: "ptr \<Rightarrow> ptr \<Rightarrow> halide_error_code"

record outcome =
  ret :: halide_error_code
  pool_after :: "desc_pool_t list"
  trace :: "event list"

definition is_luma :: "t_eDmaFmt \<Rightarrow> bool" where
  "is_luma f \<longleftrightarrow>
     f = eDmaFmt_NV12_Y \<or> f = eDmaFmt_P010_Y \<or> f = eDmaFmt_TP10_Y \<or> f = eDmaFmt_NV124R_Y"

definition is_chroma :: "t_eDmaFmt \<Rightarrow> bool" where
  "is_chroma f \<longleftrightarrow>
     f = eDmaFmt_NV12_UV \<or> f = eDmaFmt_P010_UV \<or> f = eDmaFmt_TP10_UV \<or> f = eDmaFmt_NV124R_UV"

text \<open>Lines 208 to 228: the dimensions the format requires.\<close>

definition check_dimensions :: "dma_device_handle \<Rightarrow> halide_buffer_t \<Rightarrow> failure + unit" where
  "check_dimensions dev src =
     seq (if fmt dev = eDmaFmt_RawData then halide_assert (dimensions src \<le> 3) else Inr ()) (\<lambda>_.
     seq (if is_luma (fmt dev) then halide_assert (dimensions src = 2) else Inr ()) (\<lambda>_.
     if is_chroma (fmt dev) then
       seq (halide_assert (dimensions src = 3)) (\<lambda>_.
       seq (dim_at src 0) (\<lambda>s0.
       seq (halide_assert (stride s0 = 2)) (\<lambda>_.
       seq (dim_at src 2) (\<lambda>s2.
       seq (halide_assert (stride s2 = 1)) (\<lambda>_.
       seq (halide_assert (min_dim s2 = 0)) (\<lambda>_.
       halide_assert (extent s2 = 2)))))))
     else Inr ()))"

text \<open>Lines 244 and 245: the stride of the destination replaces a smaller recommended one.\<close>

definition choose_roi_stride :: "int32 \<Rightarrow> int32 \<Rightarrow> int32" where
  "choose_roi_stride dst_stride roi_stride =
     (if sint dst_stride > sint roi_stride then dst_stride else roi_stride)"

text \<open>
  The operator \<^verbatim>\<open>%\<close> on \<^verbatim>\<open>int\<close>: the remainder of the division that truncates
  towards zero; undefined for a zero divisor and for the quotient that does not fit.
\<close>

definition c_rem :: "int32 \<Rightarrow> int32 \<Rightarrow> failure + int32" where
  "c_rem a b =
     (if b = 0 \<or> (sint a = - (2 ^ 31) \<and> sint b = - 1) then Inl Undefined_behaviour
      else Inr (word_of_int (sint a smod sint b)))"

text \<open>Line 248, with \<open>roi_stride\<close> the stride already chosen.\<close>

definition check_stride :: "int32 \<Rightarrow> int32 \<Rightarrow> failure + unit" where
  "check_stride dst_stride roi_stride =
     seq (c_rem dst_stride roi_stride) (\<lambda>r. halide_assert (r = 0))"

text \<open>
  Lines 277 to 291: the origin of the region, by direction, and the planar raw case, which
  takes the read offset whatever the direction.
\<close>

definition roi_origin ::
  "dma_device_handle \<Rightarrow> halide_buffer_t \<Rightarrow> halide_buffer_t \<Rightarrow>
   halide_dimension_t \<Rightarrow> halide_dimension_t \<Rightarrow> failure + uint16 \<times> uint16" where
  "roi_origin dev src dst d0 d1 =
     (let x = (if is_write dev then to_uint16 (promote (offset_wrx dev) * stride d0)
               else to_uint16 ((promote (offset_rdx dev) + min_dim d0) * stride d0));
          y = (if is_write dev then offset_wry dev
               else to_uint16 (promote (offset_rdy dev) + min_dim d1))
      in if fmt dev = eDmaFmt_RawData \<and> dimensions dst = 3
         then seq (dim_at dst 2) (\<lambda>d2.
              seq (dim_at src 1) (\<lambda>s1.
              Inr (x, to_uint16 (promote (offset_rdy dev) + min_dim d1
                                 + min_dim d2 * stride s1))))
         else Inr (x, y))"

text \<open>Lines 297 to 311: the height and the Y origin of a chroma plane.\<close>

definition chroma_adjust ::
  "dma_device_handle \<Rightarrow> int32 \<Rightarrow> uint16 \<Rightarrow> uint16 \<times> uint16" where
  "chroma_adjust dev roi_height y =
     (if is_chroma (fmt dev)
      then (to_uint16 (roi_height * 2),
            if is_write dev then to_uint16 (promote y * 2)
            else to_uint16 ((promote y - frame_height dev) * 2))
      else (to_uint16 roi_height, y))"

text \<open>Lines 264 to 311: the structure handed to the driver.\<close>

definition transfer_parm ::
  "dma_device_handle \<Rightarrow> halide_buffer_t \<Rightarrow> halide_buffer_t \<Rightarrow>
   halide_dimension_t \<Rightarrow> halide_dimension_t \<Rightarrow> int32 \<Rightarrow> int32 \<Rightarrow> int32 \<Rightarrow> ptr \<Rightarrow>
   failure + t_StDmaWrapper_DmaTransferSetup" where
  "transfer_parm dev src dst d0 d1 roi_width roi_height roi_stride desc_addr =
     seq (roi_origin dev src dst d0 d1) (\<lambda>(x, y).
     let (h, y') = chroma_adjust dev roi_height y in
     Inr \<lparr>eFmt = fmt dev,
          u16FrameW = to_uint16 (frame_width dev),
          u16FrameH = to_uint16 (frame_height dev),
          u16FrameStride = to_uint16 (frame_stride dev),
          u16RoiW = to_uint16 roi_width,
          u16RoiH = h,
          u16RoiStride = to_uint16 roi_stride,
          bIsFmtUbwc = is_ubwc dev,
          bUse16BitPaddingInL2 = False,
          pDescBuf = desc_addr,
          pTcmDataBuf = host dst,
          pFrameBuf = buffer dev,
          eTransferType = (if is_write dev then eDmaWrapper_L2ToDdr else eDmaWrapper_DdrToL2),
          u16RoiX = x,
          u16RoiY = y'\<rparr>)"

text \<open>
  Lines 313 to 348: the engine is taken from its pool, set up, started and waited for;
  each failure returns at once. The descriptor and the engine go back only at the end.
\<close>

definition run_transfer ::
  "dma_driver \<Rightarrow> dma_device_handle \<Rightarrow> desc_pool_t list \<Rightarrow> event list \<Rightarrow> ptr \<Rightarrow>
   t_StDmaWrapper_DmaTransferSetup \<Rightarrow> failure + outcome" where
  "run_transfer drv dev pool ev desc_addr parm =
     (let engine = halide_hexagon_allocate_from_dma_pool drv (dma_engine dev);
          ev1 = ev @ [Allocate_from_dma_pool (dma_engine dev) engine]
      in if engine = 0
         then Inr \<lparr>ret = halide_error_code_device_buffer_copy_failed,
                   pool_after = pool, trace = ev1\<rparr>
         else
           let r1 = nDmaWrapper_DmaTransferSetup drv engine parm;
               ev2 = ev1 @ [DmaTransferSetup engine parm r1]
           in if r1 \<noteq> QURT_EOK
              then Inr \<lparr>ret = halide_error_code_device_buffer_copy_failed,
                        pool_after = pool, trace = ev2\<rparr>
              else
                let r2 = nDmaWrapper_Move drv engine;
                    ev3 = ev2 @ [Move engine r2]
                in if r2 \<noteq> QURT_EOK
                   then Inr \<lparr>ret = halide_error_code_device_buffer_copy_failed,
                             pool_after = pool, trace = ev3\<rparr>
                   else
                     let r3 = nDmaWrapper_Wait drv engine;
                         ev4 = ev3 @ [Wait engine r3]
                     in if r3 \<noteq> QURT_EOK
                        then Inr \<lparr>ret = halide_error_code_device_buffer_copy_failed,
                                  pool_after = pool, trace = ev4\<rparr>
                        else
                          seq (desc_pool_put pool desc_addr) (\<lambda>pool'.
                          let nRet = halide_hexagon_free_to_dma_pool drv engine (dma_engine dev);
                              ev5 = ev4 @ [Free_to_dma_pool engine (dma_engine dev) nRet]
                          in if nRet \<noteq> halide_error_code_success
                             then Inr \<lparr>ret = nRet, pool_after = pool', trace = ev5\<rparr>
                             else Inr \<lparr>ret = halide_error_code_success,
                                       pool_after = pool', trace = ev5\<rparr>))"

text \<open>Lines 230 to 236: the two alignment queries.\<close>

definition walk_size ::
  "dma_driver \<Rightarrow> dma_device_handle \<Rightarrow> halide_dimension_t \<Rightarrow> halide_dimension_t \<Rightarrow>
   t_StDmaWrapper_RoiAlignInfo" where
  "walk_size drv dev d0 d1 =
     nDmaWrapper_GetRecommendedWalkSize drv (fmt dev) (is_ubwc dev)
       \<lparr>u16W = to_uint16 (extent d0 * stride d0), u16H = to_uint16 (extent d1)\<rparr>"

definition recommended_stride ::
  "dma_driver \<Rightarrow> dma_device_handle \<Rightarrow> halide_dimension_t \<Rightarrow> halide_dimension_t \<Rightarrow> int32" where
  "recommended_stride drv dev d0 d1 =
     nDmaWrapper_GetRecommendedIntermBufStride drv (fmt dev) (walk_size drv dev d0 d1)
       (is_ubwc dev)"

text \<open>\<^verbatim>\<open>halide_hexagon_dma_wrapper\<close>, from the pool as it is before the call.\<close>

definition halide_hexagon_dma_wrapper ::
  "dma_driver \<Rightarrow> desc_pool_t list \<Rightarrow> halide_buffer_t \<Rightarrow> halide_buffer_t \<Rightarrow> failure + outcome" where
  "halide_hexagon_dma_wrapper drv pool src dst =
     (case device src of
        None \<Rightarrow> Inl Undefined_behaviour
      | Some dev \<Rightarrow>
          seq (check_dimensions dev src) (\<lambda>_.
          seq (dim_at dst 0) (\<lambda>d0.
          seq (dim_at dst 1) (\<lambda>d1.
          let stWalkSize = walk_size drv dev d0 d1;
              roi_width = promote (u16W stWalkSize);
              roi_height = promote (u16H stWalkSize);
              roi_stride = choose_roi_stride (stride d1) (recommended_stride drv dev d0 d1)
          in seq (check_stride (stride d1) roi_stride) (\<lambda>_.
             case desc_pool_get (allocator drv) pool of
               (desc_addr, pool1, ev) \<Rightarrow>
                 if desc_addr = 0
                 then Inr \<lparr>ret = halide_error_code_device_buffer_copy_failed,
                           pool_after = pool1,
                           trace = ev @ [Error_msg ''Hexagon: DMA descriptor allocation error '']\<rparr>
                 else
                   seq (transfer_parm dev src dst d0 d1 roi_width roi_height roi_stride desc_addr)
                     (run_transfer drv dev pool1 ev desc_addr))))))"

subsection \<open>Device handles: creation, preparation, crop\<close>

text \<open>
  \<^verbatim>\<open>malloc_device_handle\<close> writes the fields without looking at what \<^verbatim>\<open>malloc\<close>
  returned; the argument says whether \<^verbatim>\<open>malloc\<close> gave memory.
\<close>

definition malloc_device_handle :: "bool \<Rightarrow> failure + dma_device_handle" where
  "malloc_device_handle ok =
     (if ok
      then Inr \<lparr>buffer = 0, offset_rdx = 0, offset_rdy = 0, offset_wrx = 0, offset_wry = 0,
                dma_engine = 0, frame_width = 0, frame_height = 0, frame_stride = 0,
                is_ubwc = False, is_write = False, fmt = eDmaFmt_RawData\<rparr>
      else Inl Undefined_behaviour)"

text \<open>
  \<^verbatim>\<open>halide_hexagon_get_dma_format\<close>: the default branch reports the mismatch and
  leaves the function without a value.
\<close>

fun halide_hexagon_get_dma_format :: "halide_hexagon_image_fmt_t \<Rightarrow> failure + t_eDmaFmt" where
  "halide_hexagon_get_dma_format halide_hexagon_fmt_NV12 = Inr eDmaFmt_NV12"
| "halide_hexagon_get_dma_format halide_hexagon_fmt_NV12_Y = Inr eDmaFmt_NV12_Y"
| "halide_hexagon_get_dma_format halide_hexagon_fmt_NV12_UV = Inr eDmaFmt_NV12_UV"
| "halide_hexagon_get_dma_format halide_hexagon_fmt_P010 = Inr eDmaFmt_P010"
| "halide_hexagon_get_dma_format halide_hexagon_fmt_P010_Y = Inr eDmaFmt_P010_Y"
| "halide_hexagon_get_dma_format halide_hexagon_fmt_P010_UV = Inr eDmaFmt_P010_UV"
| "halide_hexagon_get_dma_format halide_hexagon_fmt_TP10 = Inr eDmaFmt_TP10"
| "halide_hexagon_get_dma_format halide_hexagon_fmt_TP10_Y = Inr eDmaFmt_TP10_Y"
| "halide_hexagon_get_dma_format halide_hexagon_fmt_TP10_UV = Inr eDmaFmt_TP10_UV"
| "halide_hexagon_get_dma_format halide_hexagon_fmt_NV124R = Inr eDmaFmt_NV124R"
| "halide_hexagon_get_dma_format halide_hexagon_fmt_NV124R_Y = Inr eDmaFmt_NV124R_Y"
| "halide_hexagon_get_dma_format halide_hexagon_fmt_NV124R_UV = Inr eDmaFmt_NV124R_UV"
| "halide_hexagon_get_dma_format halide_hexagon_fmt_RawData = Inr eDmaFmt_RawData"
| "halide_hexagon_get_dma_format halide_hexagon_fmt_unlisted = Inl Undefined_behaviour"

text \<open>\<^verbatim>\<open>dma_prepare_for_copy\<close>: the status and the buffer with its handle updated.\<close>

definition dma_prepare_for_copy ::
  "halide_buffer_t \<Rightarrow> ptr \<Rightarrow> bool \<Rightarrow> t_eDmaFmt \<Rightarrow> bool \<Rightarrow>
   failure + halide_error_code \<times> halide_buffer_t" where
  "dma_prepare_for_copy buf engine ubwc f wr =
     seq (halide_assert (engine \<noteq> 0)) (\<lambda>_.
     case device buf of
       None \<Rightarrow> Inl Undefined_behaviour
     | Some dev \<Rightarrow>
         let dev1 = dev\<lparr>dma_engine := engine, is_ubwc := ubwc, fmt := f, is_write := wr\<rparr>;
             dev2 = (if is_chroma (fmt dev1)
                     then dev1\<lparr>frame_height := frame_height dev1 * 2\<rparr>
                     else dev1)
         in Inr (halide_error_code_success, buf\<lparr>device := Some dev2\<rparr>))"

definition halide_hexagon_dma_prepare_for_copy_to_host ::
  "halide_buffer_t \<Rightarrow> ptr \<Rightarrow> bool \<Rightarrow> halide_hexagon_image_fmt_t \<Rightarrow>
   failure + halide_error_code \<times> halide_buffer_t" where
  "halide_hexagon_dma_prepare_for_copy_to_host buf engine ubwc image_fmt =
     seq (halide_hexagon_get_dma_format image_fmt) (\<lambda>format.
     dma_prepare_for_copy buf engine ubwc format False)"

definition halide_hexagon_dma_prepare_for_copy_to_device ::
  "halide_buffer_t \<Rightarrow> ptr \<Rightarrow> bool \<Rightarrow> halide_hexagon_image_fmt_t \<Rightarrow>
   failure + halide_error_code \<times> halide_buffer_t" where
  "halide_hexagon_dma_prepare_for_copy_to_device buf engine ubwc image_fmt =
     seq (halide_hexagon_get_dma_format image_fmt) (\<lambda>format.
     dma_prepare_for_copy buf engine ubwc format True)"

text \<open>
  \<^verbatim>\<open>halide_hexagon_dma_device_wrap_native\<close>: the assertion comes before the test that
  would return the wrap error, so a buffer that has a handle already aborts.
\<close>

definition halide_hexagon_dma_device_wrap_native ::
  "bool \<Rightarrow> halide_buffer_t \<Rightarrow> ptr \<Rightarrow> failure + halide_error_code \<times> halide_buffer_t" where
  "halide_hexagon_dma_device_wrap_native ok buf handle =
     seq (halide_assert (device buf = None)) (\<lambda>_.
     seq (malloc_device_handle ok) (\<lambda>dev.
     seq (dim_at buf 0) (\<lambda>b0.
     seq (dim_at buf 1) (\<lambda>b1.
     Inr (halide_error_code_success,
          buf\<lparr>device_interface := Some hexagon_dma_device_interface,
              device := Some (dev\<lparr>buffer := handle,
                                  dma_engine := 0,
                                  frame_width := extent b0 * stride b0,
                                  frame_height := extent b1,
                                  frame_stride := stride b1\<rparr>)\<rparr>)))))"

text \<open>
  \<^verbatim>\<open>halide_hexagon_dma_device_crop\<close>: the new handle starts from
  \<^verbatim>\<open>malloc_device_handle\<close>; the read offsets are not assigned.
\<close>

definition halide_hexagon_dma_device_crop ::
  "bool \<Rightarrow> halide_buffer_t \<Rightarrow> halide_buffer_t \<Rightarrow> failure + halide_error_code \<times> halide_buffer_t" where
  "halide_hexagon_dma_device_crop ok src dst =
     (case device src of
        None \<Rightarrow> Inl Undefined_behaviour
      | Some src_dev \<Rightarrow>
          seq (malloc_device_handle ok) (\<lambda>dst_dev.
          seq (dim_at dst 0) (\<lambda>d0.
          seq (dim_at src 0) (\<lambda>s0.
          seq (dim_at dst 1) (\<lambda>d1.
          seq (dim_at src 1) (\<lambda>s1.
          Inr (halide_error_code_success,
               dst\<lparr>device_interface := device_interface src,
                   device := Some (dst_dev
                     \<lparr>buffer := buffer src_dev,
                      offset_wrx := to_uint16 (promote (offset_wrx src_dev) + min_dim d0 - min_dim s0),
                      offset_wry := to_uint16 (promote (offset_wry src_dev) + min_dim d1 - min_dim s1),
                      dma_engine := dma_engine src_dev,
                      frame_width := frame_width src_dev,
                      frame_height := frame_height src_dev,
                      frame_stride := frame_stride src_dev,
                      is_ubwc := is_ubwc src_dev,
                      is_write := is_write src_dev,
                      fmt := fmt src_dev\<rparr>)\<rparr>)))))))"

subsection \<open>Example values\<close>

text \<open>
  A driver whose alignment query returns the walk size it is given and a fixed stride, whose
  allocations succeed, and whose calls return the given status values; a frame handle; a
  frame buffer with that handle and an on-chip tile buffer without one.
\<close>

definition example_driver ::
  "int32 \<Rightarrow> int32 \<Rightarrow> int32 \<Rightarrow> int32 \<Rightarrow> halide_error_code \<Rightarrow> dma_driver" where
  "example_driver recommended r1 r2 r3 rf =
     \<lparr>nDmaWrapper_GetRecommendedWalkSize = (\<lambda>f u w. w),
      nDmaWrapper_GetRecommendedIntermBufStride = (\<lambda>f w u. recommended),
      allocator = \<lparr>first_node = 1000, locked = 4096, second_node = 1016\<rparr>,
      halide_hexagon_allocate_from_dma_pool = (\<lambda>h. 500),
      nDmaWrapper_DmaTransferSetup = (\<lambda>e p. r1),
      nDmaWrapper_Move = (\<lambda>e. r2),
      nDmaWrapper_Wait = (\<lambda>e. r3),
      halide_hexagon_free_to_dma_pool = (\<lambda>e h. rf)\<rparr>"

definition example_handle :: "t_eDmaFmt \<Rightarrow> bool \<Rightarrow> dma_device_handle" where
  "example_handle f wr =
     \<lparr>buffer = 65536, offset_rdx = 0, offset_rdy = 0, offset_wrx = 0, offset_wry = 0,
      dma_engine = 7, frame_width = 64, frame_height = 64, frame_stride = 64,
      is_ubwc = False, is_write = wr, fmt = f\<rparr>"

definition example_frame :: "dma_device_handle \<Rightarrow> halide_dimension_t list \<Rightarrow> halide_buffer_t" where
  "example_frame dev ds =
     \<lparr>device = Some dev, device_interface = Some hexagon_dma_device_interface,
      host = 0, dim = ds\<rparr>"

definition example_tile :: "halide_dimension_t list \<Rightarrow> halide_buffer_t" where
  "example_tile ds = \<lparr>device = None, device_interface = None, host = 32768, dim = ds\<rparr>"

subsection \<open>Release\<close>

lemma mark_free_map:
  "mark_free desc pool = map (\<lambda>n. if descriptor n = desc then n\<lparr>used := False\<rparr> else n) pool"
  by (induction pool) simp_all

lemma mark_free_id:
  "(\<forall>n \<in> set pool. descriptor n = desc \<longrightarrow> \<not> used n) \<Longrightarrow> mark_free desc pool = pool"
  by (induction pool) simp_all

lemma mark_free_idem: "mark_free desc (mark_free desc pool) = mark_free desc pool"
  by (induction pool) simp_all

text \<open>
  C7. With a non-null argument, release goes through the whole list and clears the flag of
  every node whose descriptor pointer is the argument. A pointer that is in no node, or
  whose nodes are all free already, leaves the pool as it was; releasing twice is the same
  as releasing once. A null argument fails the assertion.
\<close>

theorem desc_pool_put_spec:
  "desc_pool_put pool 0 = Inl Assert_failed \<and>
   (desc \<noteq> 0 \<longrightarrow>
      desc_pool_put pool desc =
        Inr (map (\<lambda>n. if descriptor n = desc then n\<lparr>used := False\<rparr> else n) pool)) \<and>
   (desc \<noteq> 0 \<and> desc \<notin> descriptor ` set pool \<longrightarrow> desc_pool_put pool desc = Inr pool) \<and>
   (desc \<noteq> 0 \<and> (\<forall>n \<in> set pool. descriptor n = desc \<longrightarrow> \<not> used n) \<longrightarrow>
      desc_pool_put pool desc = Inr pool) \<and>
   (desc \<noteq> 0 \<longrightarrow>
      (case desc_pool_put pool desc of
         Inl e \<Rightarrow> Inl e
       | Inr pool' \<Rightarrow> desc_pool_put pool' desc) = desc_pool_put pool desc)"
proof -
  have absent: "mark_free desc pool = pool" if "desc \<notin> descriptor ` set pool"
    using that by (intro mark_free_id) auto
  show ?thesis
    by (simp add: desc_pool_put_def mark_free_map [symmetric] mark_free_id mark_free_idem absent)
qed

theorem desc_pool_put_spec_witness:
  "desc_pool_put [\<lparr>node_addr = 1000, descriptor = 4096, used = True\<rparr>,
                  \<lparr>node_addr = 1016, descriptor = 4160, used = False\<rparr>] 4096
     = Inr [\<lparr>node_addr = 1000, descriptor = 4096, used = False\<rparr>,
            \<lparr>node_addr = 1016, descriptor = 4160, used = False\<rparr>]
   \<and> desc_pool_put [\<lparr>node_addr = 1000, descriptor = 4096, used = True\<rparr>,
                  \<lparr>node_addr = 1016, descriptor = 4160, used = False\<rparr>] 4160
     = Inr [\<lparr>node_addr = 1000, descriptor = 4096, used = True\<rparr>,
            \<lparr>node_addr = 1016, descriptor = 4160, used = False\<rparr>]
   \<and> desc_pool_put [\<lparr>node_addr = 1000, descriptor = 4096, used = True\<rparr>,
                  \<lparr>node_addr = 1016, descriptor = 4160, used = False\<rparr>] 8192
     = Inr [\<lparr>node_addr = 1000, descriptor = 4096, used = True\<rparr>,
            \<lparr>node_addr = 1016, descriptor = 4160, used = False\<rparr>]"
  using desc_pool_put_spec [of "[\<lparr>node_addr = 1000, descriptor = 4096, used = True\<rparr>,
                  \<lparr>node_addr = 1016, descriptor = 4160, used = False\<rparr>]" 4096]
    desc_pool_put_spec [of "[\<lparr>node_addr = 1000, descriptor = 4096, used = True\<rparr>,
                  \<lparr>node_addr = 1016, descriptor = 4160, used = False\<rparr>]" 4160]
    desc_pool_put_spec [of "[\<lparr>node_addr = 1000, descriptor = 4096, used = True\<rparr>,
                  \<lparr>node_addr = 1016, descriptor = 4160, used = False\<rparr>]" 8192]
  by simp

subsection \<open>Lease\<close>

lemma walk_pool_None: "walk_pool pool = None \<longleftrightarrow> (\<forall>n \<in> set pool. used n)"
  by (induction pool) (auto split: option.splits)

lemma walk_pool_first_fit:
  "i < length pool \<Longrightarrow> \<not> used (pool ! i) \<Longrightarrow> (\<forall>j < i. used (pool ! j)) \<Longrightarrow>
   walk_pool pool = Some (descriptor (pool ! i), pool[i := (pool ! i)\<lparr>used := True\<rparr>])"
proof (induction pool arbitrary: i)
  case Nil
  then show ?case by simp
next
  case (Cons n ns)
  show ?case
  proof (cases i)
    case 0
    with Cons.prems show ?thesis by simp
  next
    case (Suc k)
    from Suc Cons.prems have un: "used n" by fastforce
    from Suc Cons.prems have k: "k < length ns" "\<not> used (ns ! k)" by simp_all
    have "\<forall>j < k. used (ns ! j)"
    proof (intro allI impI)
      fix j assume "j < k"
      then have "Suc j < i" using Suc by simp
      with Cons.prems(3) have "used ((n # ns) ! Suc j)" by blast
      then show "used (ns ! j)" by simp
    qed
    with k have "walk_pool ns = Some (descriptor (ns ! k), ns[k := (ns ! k)\<lparr>used := True\<rparr>])"
      by (rule Cons.IH)
    with un Suc show ?thesis by simp
  qed
qed

lemma walk_pool_shape:
  "walk_pool pool = Some (d, pool1) \<Longrightarrow>
   \<exists>xs n ys. pool1 = xs @ n # ys \<and> (\<forall>x \<in> set xs. used x) \<and> used n \<and> descriptor n = d"
proof (induction pool arbitrary: pool1)
  case Nil
  then show ?case by simp
next
  case (Cons a pool)
  show ?case
  proof (cases "used a")
    case False
    with Cons.prems have "pool1 = a\<lparr>used := True\<rparr> # pool" "descriptor a = d" by simp_all
    then show ?thesis by (intro exI [of _ "[]"]) simp
  next
    case True
    with Cons.prems obtain r where r: "walk_pool pool = Some (d, r)" "pool1 = a # r"
      by (auto split: option.splits)
    from Cons.IH [OF r(1)] obtain xs n ys where
      "r = xs @ n # ys" "\<forall>x \<in> set xs. used x" "used n" "descriptor n = d" by blast
    with r True have "pool1 = (a # xs) @ n # ys \<and> (\<forall>x \<in> set (a # xs). used x) \<and> used n \<and> descriptor n = d"
      by simp
    then show ?thesis by blast
  qed
qed

lemma walk_pool_after_release:
  "\<forall>x \<in> set xs. used x \<Longrightarrow> descriptor n = d \<Longrightarrow>
   \<exists>p. walk_pool (mark_free d (xs @ n # ys)) = Some (d, p)"
  by (induction xs) (auto split: option.splits)

lemma walk_pool_prefix_used:
  "\<forall>x \<in> set xs. used x \<Longrightarrow> \<not> used m \<Longrightarrow>
   walk_pool (xs @ m # ys) = Some (descriptor m, xs @ m\<lparr>used := True\<rparr> # ys)"
  by (induction xs) simp_all

lemma mark_free_distinct:
  "distinct (map descriptor (xs @ n # ys)) \<Longrightarrow>
   mark_free (descriptor n) (xs @ n # ys) = xs @ n\<lparr>used := False\<rparr> # ys"
proof -
  assume d: "distinct (map descriptor (xs @ n # ys))"
  then have "\<forall>x \<in> set xs. descriptor x \<noteq> descriptor n" "\<forall>y \<in> set ys. descriptor y \<noteq> descriptor n"
    by (auto simp: image_def)
  then have "mark_free (descriptor n) xs = xs" "mark_free (descriptor n) ys = ys"
    by (simp_all add: mark_free_id)
  then show ?thesis by (simp add: mark_free_map)
qed

lemma desc_pool_get_shape:
  assumes "desc_pool_get env pool = (d, pool1, ev)" "d \<noteq> 0"
  shows "\<exists>xs n ys. pool1 = xs @ n # ys \<and> (\<forall>x \<in> set xs. used x) \<and> used n \<and> descriptor n = d"
proof (cases "walk_pool pool")
  case None
  then have all: "\<forall>x \<in> set pool. used x" by (simp add: walk_pool_None)
  from assms None have
    "pool1 = pool @ \<lparr>node_addr = first_node env, descriptor = d, used = True\<rparr> #
        (if second_node env \<noteq> 0
         then [\<lparr>node_addr = second_node env, descriptor = d + descriptor_size, used = False\<rparr>]
         else [])"
    by (auto simp: desc_pool_get_def Let_def split: if_splits)
  with all show ?thesis
    by (intro exI [of _ pool] exI [of _ "\<lparr>node_addr = first_node env, descriptor = d, used = True\<rparr>"]
          exI [of _ "if second_node env \<noteq> 0
         then [\<lparr>node_addr = second_node env, descriptor = d + descriptor_size, used = False\<rparr>]
         else []"]) simp
next
  case (Some r)
  with assms have "walk_pool pool = Some (d, pool1)"
    by (cases r) (simp add: desc_pool_get_def)
  then show ?thesis by (rule walk_pool_shape)
qed

lemma desc_pool_get_found:
  "walk_pool pool = Some (d, pool1) \<Longrightarrow> desc_pool_get env pool = (d, pool1, [])"
  by (simp add: desc_pool_get_def)

text \<open>
  C3. Lease takes the first node of the list that is not in use, marks it used and makes no
  allocation call; it calls the allocator only when every node is in use. After a
  successful lease and the release of the pointer it returned, the next lease returns the
  same pointer and makes no allocation call; when the descriptor pointers of the pool are
  distinct it also leaves the pool as the first lease left it.
\<close>

theorem desc_pool_get_first_fit:
  "(\<forall>i. i < length pool \<and> \<not> used (pool ! i) \<and> (\<forall>j < i. used (pool ! j)) \<longrightarrow>
      desc_pool_get env pool =
        (descriptor (pool ! i), pool[i := (pool ! i)\<lparr>used := True\<rparr>], [])) \<and>
   ((\<exists>n \<in> set pool. \<not> used n) \<longrightarrow> snd (snd (desc_pool_get env pool)) = []) \<and>
   ((\<forall>n \<in> set pool. used n) \<longrightarrow>
      (\<exists>evs. snd (snd (desc_pool_get env pool)) = Malloc (first_node env) # evs)) \<and>
   (\<forall>d pool1 ev pool2.
      desc_pool_get env pool = (d, pool1, ev) \<and> d \<noteq> 0 \<and> desc_pool_put pool1 d = Inr pool2 \<longrightarrow>
      (\<exists>pool3. desc_pool_get env' pool2 = (d, pool3, []) \<and>
         (distinct (map descriptor pool1) \<longrightarrow> pool3 = pool1)))"
proof (intro conjI allI impI)
  fix i
  assume "i < length pool \<and> \<not> used (pool ! i) \<and> (\<forall>j < i. used (pool ! j))"
  then have "walk_pool pool = Some (descriptor (pool ! i), pool[i := (pool ! i)\<lparr>used := True\<rparr>])"
    by (intro walk_pool_first_fit) simp_all
  then show "desc_pool_get env pool =
        (descriptor (pool ! i), pool[i := (pool ! i)\<lparr>used := True\<rparr>], [])"
    by (rule desc_pool_get_found)
next
  assume "\<exists>n \<in> set pool. \<not> used n"
  then have "walk_pool pool \<noteq> None" by (simp add: walk_pool_None)
  then obtain d p where "walk_pool pool = Some (d, p)" by auto
  then show "snd (snd (desc_pool_get env pool)) = []"
    by (simp add: desc_pool_get_found)
next
  assume "\<forall>n \<in> set pool. used n"
  then have "walk_pool pool = None" by (simp add: walk_pool_None)
  then show "\<exists>evs. snd (snd (desc_pool_get env pool)) = Malloc (first_node env) # evs"
    by (simp add: desc_pool_get_def Let_def)
next
  fix d pool1 ev pool2
  assume a: "desc_pool_get env pool = (d, pool1, ev) \<and> d \<noteq> 0 \<and> desc_pool_put pool1 d = Inr pool2"
  then have p2: "pool2 = mark_free d pool1" by (auto simp: desc_pool_put_def)
  from a obtain xs n ys where
    sh: "pool1 = xs @ n # ys" "\<forall>x \<in> set xs. used x" "used n" "descriptor n = d"
    using desc_pool_get_shape by blast
  from sh(2,4) obtain p where w: "walk_pool (mark_free d (xs @ n # ys)) = Some (d, p)"
    using walk_pool_after_release by blast
  have "p = pool1" if "distinct (map descriptor pool1)"
  proof -
    from that sh have "mark_free d (xs @ n # ys) = xs @ n\<lparr>used := False\<rparr> # ys"
      using mark_free_distinct by blast
    with w sh(2) have "Some (d, p) = Some (descriptor (n\<lparr>used := False\<rparr>), xs @ n\<lparr>used := False\<rparr>\<lparr>used := True\<rparr> # ys)"
      by (simp add: walk_pool_prefix_used)
    with sh(1,3) show ?thesis by simp
  qed
  with w p2 sh(1) show "\<exists>pool3. desc_pool_get env' pool2 = (d, pool3, []) \<and>
         (distinct (map descriptor pool1) \<longrightarrow> pool3 = pool1)"
    by (simp add: desc_pool_get_found)
qed


theorem desc_pool_get_first_fit_witness:
  "desc_pool_get \<lparr>first_node = 0, locked = 0, second_node = 0\<rparr>
     [\<lparr>node_addr = 1000, descriptor = 4096, used = True\<rparr>,
      \<lparr>node_addr = 1016, descriptor = 4160, used = False\<rparr>]
   = (4160, [\<lparr>node_addr = 1000, descriptor = 4096, used = True\<rparr>,
             \<lparr>node_addr = 1016, descriptor = 4160, used = True\<rparr>], []) \<and>
   desc_pool_get \<lparr>first_node = 1032, locked = 8192, second_node = 1048\<rparr>
     [\<lparr>node_addr = 1000, descriptor = 4096, used = True\<rparr>,
      \<lparr>node_addr = 1016, descriptor = 4160, used = False\<rparr>]
   = (4160, [\<lparr>node_addr = 1000, descriptor = 4096, used = True\<rparr>,
             \<lparr>node_addr = 1016, descriptor = 4160, used = True\<rparr>], [])"
proof -
  let ?A = "\<lparr>node_addr = 1000, descriptor = 4096, used = True\<rparr>"
  let ?B = "\<lparr>node_addr = 1016, descriptor = 4160, used = False\<rparr>"
  let ?E = "\<lparr>first_node = 0, locked = 0, second_node = 0\<rparr>"
  let ?E' = "\<lparr>first_node = 1032, locked = 8192, second_node = 1048\<rparr>"
  note t = desc_pool_get_first_fit [of "[?A, ?B]" ?E ?E']
  from t have "1 < length [?A, ?B] \<and> \<not> used ([?A, ?B] ! 1) \<and> (\<forall>j < 1. used ([?A, ?B] ! j)) \<longrightarrow>
      desc_pool_get ?E [?A, ?B] =
        (descriptor ([?A, ?B] ! 1), [?A, ?B][1 := ([?A, ?B] ! 1)\<lparr>used := True\<rparr>], [])"
    by blast
  then have g: "desc_pool_get ?E [?A, ?B] = (4160, [?A, ?B\<lparr>used := True\<rparr>], [])"
    by simp
  have p: "desc_pool_put [?A, ?B\<lparr>used := True\<rparr>] 4160 = Inr [?A, ?B]"
    by (simp add: desc_pool_put_def)
  have d: "distinct (map descriptor [?A, ?B\<lparr>used := True\<rparr>])" by simp
  from t have "desc_pool_get ?E [?A, ?B] = (4160, [?A, ?B\<lparr>used := True\<rparr>], []) \<and> (4160::nat) \<noteq> 0
      \<and> desc_pool_put [?A, ?B\<lparr>used := True\<rparr>] 4160 = Inr [?A, ?B] \<longrightarrow>
      (\<exists>pool3. desc_pool_get ?E' [?A, ?B] = (4160, pool3, []) \<and>
         (distinct (map descriptor [?A, ?B\<lparr>used := True\<rparr>]) \<longrightarrow> pool3 = [?A, ?B\<lparr>used := True\<rparr>]))"
    by blast
  with g p d have "desc_pool_get ?E' [?A, ?B] = (4160, [?A, ?B\<lparr>used := True\<rparr>], [])"
    by auto
  with g show ?thesis by simp
qed

subsection \<open>Growth\<close>

text \<open>
  C8. When no node is free and the node allocation succeeds: if the cache lock fails, the
  node just allocated is freed, \<^verbatim>\<open>NULL\<close> is returned with an error message and the
  pool is as before; if the lock succeeds and the second node cannot be allocated, the
  first node, locked and marked used, is appended and its descriptor is returned.
\<close>

theorem desc_pool_get_growth_failures:
  assumes "\<forall>n \<in> set pool. used n" and "first_node env \<noteq> 0"
  shows "(locked env = 0 \<longrightarrow>
            desc_pool_get env pool =
              (0, pool,
               [Malloc (first_node env), HAP_cache_lock (descriptor_size * 2) 0,
                Free (first_node env), Error_msg ''HAP_cache_lock failed''])) \<and>
         (locked env \<noteq> 0 \<and> second_node env = 0 \<longrightarrow>
            desc_pool_get env pool =
              (locked env,
               pool @ [\<lparr>node_addr = first_node env, descriptor = locked env, used = True\<rparr>],
               [Malloc (first_node env), HAP_cache_lock (descriptor_size * 2) (locked env),
                Malloc 0]))"
proof -
  from assms(1) have "walk_pool pool = None" by (simp add: walk_pool_None)
  with assms(2) show ?thesis by (simp add: desc_pool_get_def Let_def)
qed

theorem desc_pool_get_growth_failures_witness:
  "desc_pool_get \<lparr>first_node = 1032, locked = 0, second_node = 1048\<rparr>
     [\<lparr>node_addr = 1000, descriptor = 4096, used = True\<rparr>]
   = (0, [\<lparr>node_addr = 1000, descriptor = 4096, used = True\<rparr>],
      [Malloc 1032, HAP_cache_lock 128 0, Free 1032, Error_msg ''HAP_cache_lock failed'']) \<and>
   desc_pool_get \<lparr>first_node = 1032, locked = 8192, second_node = 0\<rparr>
     [\<lparr>node_addr = 1000, descriptor = 4096, used = True\<rparr>]
   = (8192, [\<lparr>node_addr = 1000, descriptor = 4096, used = True\<rparr>,
             \<lparr>node_addr = 1032, descriptor = 8192, used = True\<rparr>],
      [Malloc 1032, HAP_cache_lock 128 8192, Malloc 0])"
  using desc_pool_get_growth_failures
          [of "[\<lparr>node_addr = 1000, descriptor = 4096, used = True\<rparr>]"
              "\<lparr>first_node = 1032, locked = 0, second_node = 1048\<rparr>"]
        desc_pool_get_growth_failures
          [of "[\<lparr>node_addr = 1000, descriptor = 4096, used = True\<rparr>]"
              "\<lparr>first_node = 1032, locked = 8192, second_node = 0\<rparr>"]
  by (simp add: descriptor_size_def)

subsection \<open>Teardown\<close>

text \<open>
  C2. Teardown pairs the nodes by their position in the list. A growth whose second node
  could not be allocated leaves a single node; after a later complete growth the positions
  no longer match the allocations. In the pool built below, teardown unlocks \<open>4096\<close>,
  frees the first node of the second allocation without unlocking \<open>8192\<close>, and unlocks
  \<open>8256\<close>, the pointer into the middle of that allocation.
\<close>

theorem desc_pool_free_after_partial_growth:
  "desc_pool_get \<lparr>first_node = 1000, locked = 4096, second_node = 0\<rparr> []
   = (4096, [\<lparr>node_addr = 1000, descriptor = 4096, used = True\<rparr>],
      [Malloc 1000, HAP_cache_lock 128 4096, Malloc 0]) \<and>
   desc_pool_get \<lparr>first_node = 1016, locked = 8192, second_node = 1032\<rparr>
     [\<lparr>node_addr = 1000, descriptor = 4096, used = True\<rparr>]
   = (8192, [\<lparr>node_addr = 1000, descriptor = 4096, used = True\<rparr>,
             \<lparr>node_addr = 1016, descriptor = 8192, used = True\<rparr>,
             \<lparr>node_addr = 1032, descriptor = 8256, used = False\<rparr>],
      [Malloc 1016, HAP_cache_lock 128 8192, Malloc 1032]) \<and>
   desc_pool_free [\<lparr>node_addr = 1000, descriptor = 4096, used = True\<rparr>,
                   \<lparr>node_addr = 1016, descriptor = 8192, used = True\<rparr>,
                   \<lparr>node_addr = 1032, descriptor = 8256, used = False\<rparr>]
   = [HAP_cache_unlock 4096, Free 1000, Free 1016, HAP_cache_unlock 8256, Free 1032]"
  by (simp add: desc_pool_get_def descriptor_size_def)

text \<open>
  Every node is freed, whatever the pool. When the list is made of complete pairs, followed
  by at most one more node, the descriptors unlocked are those of the first node of each
  pair and of that last node, each once.
\<close>

lemma desc_pool_free_frees_all:
  "[a. Free a \<leftarrow> desc_pool_free pool] = map node_addr pool"
  by (induction pool rule: desc_pool_free.induct) simp_all

lemma desc_pool_free_complete_pairs:
  assumes "length rest \<le> 1"
  shows "[p. HAP_cache_unlock p \<leftarrow> desc_pool_free (concat (map (\<lambda>(a, b). [a, b]) prs) @ rest)]
         = [descriptor a. (a, b) \<leftarrow> prs, descriptor a \<noteq> 0]
           @ [descriptor t. t \<leftarrow> rest, descriptor t \<noteq> 0]"
proof (induction prs)
  case Nil
  from assms consider "rest = []" | t where "rest = [t]"
    by (cases rest) (auto simp: Suc_le_eq)
  then show ?case by cases simp_all
next
  case (Cons pr prs)
  obtain a b where "pr = (a, b)" by (cases pr)
  with Cons show ?case by simp
qed

subsection \<open>Arithmetic of the 16-bit fields\<close>

text \<open>
  A 32-bit expression stored in a 16-bit field holds the value of the expression over the
  integers, reduced modulo \<open>2 ^ 16\<close>. The rules below read an expression of promoted
  16-bit values and 32-bit values as the word of an integer expression.
\<close>

lemma to_uint16_int: "to_uint16 x = word_of_int (sint x)"
proof -
  have "take_bit 16 (uint x) = take_bit 16 (sint x)"
    by (simp add: sint_uint take_bit_signed_take_bit)
  then have "(word_of_int (uint x) :: uint16) = word_of_int (sint x)"
    by (subst word_of_int_eq_iff) simp
  moreover have "to_uint16 x = word_of_int (uint x)"
    unfolding to_uint16_def by (rule ucast_eq)
  ultimately show ?thesis by (rule trans[rotated])
qed

lemma to_uint16_of_int: "to_uint16 (word_of_int k) = word_of_int k"
  unfolding to_uint16_def
  by (simp add: ucast_eq word_of_int_eq_iff uint_word_of_int_eq min_def)

lemma promote_int: "promote a = word_of_int (uint a)"
  unfolding promote_def by (rule ucast_eq)

lemma w_add: "A = word_of_int a \<Longrightarrow> B = word_of_int b \<Longrightarrow> A + B = (word_of_int (a + b) :: int32)"
  by simp

lemma w_sub: "A = word_of_int a \<Longrightarrow> B = word_of_int b \<Longrightarrow> A - B = (word_of_int (a - b) :: int32)"
  by simp

lemma w_mul: "A = word_of_int a \<Longrightarrow> B = word_of_int b \<Longrightarrow> A * B = (word_of_int (a * b) :: int32)"
  by simp

lemma w_var: "(x::int32) = word_of_int (sint x)"
  by simp

lemma w_two: "(2::int32) = word_of_int 2"
  by simp

lemma to16: "X = word_of_int k \<Longrightarrow> uint (to_uint16 X) = k mod 2 ^ 16"
  by (simp only: to_uint16_of_int uint_word_of_int) simp

lemmas w_intros = to16 w_add w_sub w_mul promote_int w_var w_two

subsection \<open>The stride check\<close>

lemma smod_zero_iff: "k smod l = 0 \<longleftrightarrow> l dvd (k::int)"
proof -
  have "k smod l = 0 \<longleftrightarrow> \<bar>k\<bar> mod \<bar>l\<bar> = 0"
    by (cases "k = 0") (simp_all add: smod_int_alt_def sgn_if)
  also have "\<dots> \<longleftrightarrow> \<bar>l\<bar> dvd \<bar>k\<bar>"
    by (simp add: dvd_eq_mod_eq_0)
  finally show ?thesis by simp
qed

lemma word32_of_small_zero:
  "\<bar>m\<bar> < 2 ^ 31 \<Longrightarrow> (word_of_int m :: int32) = 0 \<longleftrightarrow> m = 0"
proof
  assume b: "\<bar>m\<bar> < 2 ^ 31" and z: "(word_of_int m :: int32) = 0"
  from z have "(2::int) ^ 32 dvd m" by (simp add: word_of_int_eq_0_iff)
  then obtain q where q: "m = 2 ^ 32 * q" by (auto simp: dvd_def)
  show "m = 0"
  proof (rule ccontr)
    assume "m \<noteq> 0"
    with q have "q \<noteq> 0" by auto
    then have "\<bar>q\<bar> \<ge> 1" by simp
    then have "\<bar>m\<bar> \<ge> 2 ^ 32" using q by (simp add: abs_mult)
    with b show False by simp
  qed
qed simp

lemma check_stride_positive:
  assumes "0 < sint b"
  shows "check_stride a b = (if sint b dvd sint a then Inr () else Inl Assert_failed)"
proof -
  from assms have nz: "b \<noteq> 0" "sint b \<noteq> - 1" by auto
  have "sint b < 2 ^ 31" using sint_lt [of b] by simp
  moreover from assms have "sint a smod sint b \<in> {- \<bar>sint b\<bar> + 1..\<bar>sint b\<bar> - 1}"
    by (intro smod_int_range) simp
  ultimately have "\<bar>sint a smod sint b\<bar> < 2 ^ 31" using assms by auto
  then have "(word_of_int (sint a smod sint b) :: int32) = 0 \<longleftrightarrow> sint b dvd sint a"
    by (simp only: word32_of_small_zero smod_zero_iff)
  with nz show ?thesis
    by (simp add: check_stride_def c_rem_def seq_def halide_assert_def)
qed

lemma choose_roi_stride_positive:
  "0 < sint r \<Longrightarrow> 0 < sint (choose_roi_stride d r)"
  by (simp add: choose_roi_stride_def)

lemma check_stride_defined:
  assumes "b \<noteq> 0" and "\<not> (sint a = - (2 ^ 31) \<and> sint b = - 1)"
  shows "check_stride a b = (if sint b dvd sint a then Inr () else Inl Assert_failed)"
proof -
  from assms(1) have nz: "sint b \<noteq> 0" by (simp add: signed_eq_0_iff)
  have "- (2 ^ 31) \<le> sint b" "sint b < 2 ^ 31"
    using sint_ge [of b] sint_lt [of b] by simp_all
  then have "\<bar>sint b\<bar> \<le> 2 ^ 31" by simp
  moreover from nz have "sint a smod sint b \<in> {- \<bar>sint b\<bar> + 1..\<bar>sint b\<bar> - 1}"
    by (rule smod_int_range)
  ultimately have "\<bar>sint a smod sint b\<bar> < 2 ^ 31" by auto
  then have "(word_of_int (sint a smod sint b) :: int32) = 0 \<longleftrightarrow> sint b dvd sint a"
    by (simp only: word32_of_small_zero smod_zero_iff)
  with assms show ?thesis
    by (simp add: check_stride_def c_rem_def seq_def halide_assert_def)
qed

text \<open>
  The check at line 248 tests the stride already replaced at line 245. For positive
  strides it therefore fails exactly when the destination stride is below the recommended
  one: a destination stride above the recommended stride is tested against itself.
\<close>

lemma stride_check_is_a_comparison:
  assumes "0 < sint d" and "0 < sint r"
  shows "check_stride d (choose_roi_stride d r) = Inl Assert_failed \<longleftrightarrow> sint d < sint r"
proof (cases "sint r < sint d")
  case True
  then have "choose_roi_stride d r = d" by (simp add: choose_roi_stride_def)
  with assms(1) True show ?thesis by (simp add: check_stride_positive)
next
  case False
  then have c: "choose_roi_stride d r = r" by (simp add: choose_roi_stride_def)
  have "sint r dvd sint d \<longleftrightarrow> sint d = sint r"
  proof
    assume "sint r dvd sint d"
    with assms(1) have "sint r \<le> sint d" by (simp add: zdvd_imp_le)
    with False show "sint d = sint r" by simp
  qed simp
  with c assms(2) False show ?thesis by (auto simp: check_stride_positive)
qed

subsection \<open>Stride of the region\<close>

lemma desc_pool_get_no_setup:
  "desc_pool_get env pool = (d, pool1, ev) \<Longrightarrow> DmaTransferSetup e p r \<notin> set ev"
  by (auto simp: desc_pool_get_def Let_def split: option.splits if_splits)

lemma run_transfer_Inr:
  "desc \<noteq> 0 \<Longrightarrow> \<exists>out. run_transfer drv dev pool ev desc parm = Inr out"
  by (simp add: run_transfer_def desc_pool_put_def seq_def Let_def)

lemma run_transfer_setup:
  assumes "run_transfer drv dev pool ev desc parm = Inr out"
    and "DmaTransferSetup e p r \<in> set (trace out)"
    and "DmaTransferSetup e p r \<notin> set ev"
  shows "p = parm"
proof (cases "desc = 0")
  case True
  with assms show ?thesis
    by (auto simp: run_transfer_def desc_pool_put_def seq_def Let_def split: if_splits)
next
  case False
  with assms show ?thesis
    by (auto simp: run_transfer_def desc_pool_put_def seq_def Let_def split: if_splits)
qed

lemma transfer_parm_not_assert:
  "transfer_parm dev src dst d0 d1 w h s desc \<noteq> Inl Assert_failed"
  by (auto simp: transfer_parm_def roi_origin_def dim_at_def seq_def Let_def
           split: sum.splits prod.splits if_splits)

lemma wrapper_unfold:
  assumes "device src = Some dev" and "check_dimensions dev src = Inr ()"
    and "dim_at dst 0 = Inr d0" and "dim_at dst 1 = Inr d1"
  shows "halide_hexagon_dma_wrapper drv pool src dst =
     seq (check_stride (stride d1)
            (choose_roi_stride (stride d1) (recommended_stride drv dev d0 d1))) (\<lambda>_.
       case desc_pool_get (allocator drv) pool of
         (desc_addr, pool1, ev) \<Rightarrow>
           if desc_addr = 0
           then Inr \<lparr>ret = halide_error_code_device_buffer_copy_failed,
                     pool_after = pool1,
                     trace = ev @ [Error_msg ''Hexagon: DMA descriptor allocation error '']\<rparr>
           else
             seq (transfer_parm dev src dst d0 d1
                    (promote (u16W (walk_size drv dev d0 d1)))
                    (promote (u16H (walk_size drv dev d0 d1)))
                    (choose_roi_stride (stride d1) (recommended_stride drv dev d0 d1))
                    desc_addr)
               (run_transfer drv dev pool1 ev desc_addr))"
  using assms by (simp add: halide_hexagon_dma_wrapper_def seq_def Let_def)


lemma transfer_parm_fields:
  assumes "transfer_parm dev src dst d0 d1 w h s desc = Inr p"
  shows "\<exists>x y. roi_origin dev src dst d0 d1 = Inr (x, y) \<and>
           u16RoiX p = x \<and>
           u16RoiY p = snd (chroma_adjust dev h y) \<and>
           u16RoiH p = fst (chroma_adjust dev h y) \<and>
           u16RoiW p = to_uint16 w \<and>
           u16RoiStride p = to_uint16 s \<and>
           pDescBuf p = desc"
proof (cases "roi_origin dev src dst d0 d1")
  case (Inl e)
  with assms show ?thesis by (simp add: transfer_parm_def seq_def)
next
  case (Inr xy)
  obtain x y where xy: "xy = (x, y)" by (cases xy)
  obtain h' y' where c: "chroma_adjust dev h y = (h', y')" by (cases "chroma_adjust dev h y")
  from assms Inr xy c show ?thesis
    by (auto simp: transfer_parm_def seq_def)
qed

lemma wrapper_setup_event:
  assumes dev: "device src = Some dev"
    and d0: "dim_at dst 0 = Inr d0" and d1: "dim_at dst 1 = Inr d1"
    and out: "halide_hexagon_dma_wrapper drv pool src dst = Inr out"
    and ev: "DmaTransferSetup e p r \<in> set (trace out)"
  shows "\<exists>desc. transfer_parm dev src dst d0 d1
                  (promote (u16W (walk_size drv dev d0 d1)))
                  (promote (u16H (walk_size drv dev d0 d1)))
                  (choose_roi_stride (stride d1) (recommended_stride drv dev d0 d1))
                  desc = Inr p"
proof -
  have cd: "check_dimensions dev src = Inr ()"
  proof (cases "check_dimensions dev src")
    case (Inl f)
    with dev out show ?thesis by (simp add: halide_hexagon_dma_wrapper_def seq_def)
  qed simp
  note u = wrapper_unfold [OF dev cd d0 d1, of drv pool]
  obtain desc pool1 evs where g: "desc_pool_get (allocator drv) pool = (desc, pool1, evs)"
    by (cases "desc_pool_get (allocator drv) pool")
  have cs: "check_stride (stride d1)
            (choose_roi_stride (stride d1) (recommended_stride drv dev d0 d1)) = Inr ()"
  proof (cases "check_stride (stride d1)
            (choose_roi_stride (stride d1) (recommended_stride drv dev d0 d1))")
    case (Inl f)
    with u out show ?thesis by (simp add: seq_def)
  qed simp
  from desc_pool_get_no_setup [OF g] have ns: "DmaTransferSetup e p r \<notin> set evs" .
  have nz: "desc \<noteq> 0"
  proof
    assume "desc = 0"
    with u out cs g have "trace out = evs @ [Error_msg ''Hexagon: DMA descriptor allocation error '']"
      by (auto simp: seq_def)
    with ev ns show False by simp
  qed
  let ?tp = "transfer_parm dev src dst d0 d1
                  (promote (u16W (walk_size drv dev d0 d1)))
                  (promote (u16H (walk_size drv dev d0 d1)))
                  (choose_roi_stride (stride d1) (recommended_stride drv dev d0 d1))
                  desc"
  show ?thesis
  proof (cases ?tp)
    case (Inl f)
    with u out cs g nz show ?thesis by (simp add: seq_def)
  next
    case (Inr parm)
    with u out cs g nz have "run_transfer drv dev pool1 evs desc parm = Inr out"
      by (simp add: seq_def)
    from run_transfer_setup [OF this ev ns] Inr show ?thesis by blast
  qed
qed

text \<open>
  At the wrapper, for a chosen stride on which \<^verbatim>\<open>%\<close> is defined: a destination stride
  above the recommended stride is the chosen stride; the wrapper stops on a failed
  assertion exactly when the destination stride is not a multiple of the chosen stride;
  and a structure handed to the driver carries the chosen stride in 16 bits.
\<close>

lemma wrapper_stride_check:
  assumes "device src = Some dev" and "check_dimensions dev src = Inr ()"
    and "dim_at dst 0 = Inr d0" and "dim_at dst 1 = Inr d1"
    and "choose_roi_stride (stride d1) (recommended_stride drv dev d0 d1) \<noteq> 0"
    and "\<not> (sint (stride d1) = - (2 ^ 31) \<and>
            sint (choose_roi_stride (stride d1) (recommended_stride drv dev d0 d1)) = - 1)"
  shows "(sint (recommended_stride drv dev d0 d1) < sint (stride d1) \<longrightarrow>
            choose_roi_stride (stride d1) (recommended_stride drv dev d0 d1) = stride d1) \<and>
         (halide_hexagon_dma_wrapper drv pool src dst = Inl Assert_failed \<longleftrightarrow>
            \<not> sint (choose_roi_stride (stride d1) (recommended_stride drv dev d0 d1))
                 dvd sint (stride d1)) \<and>
         (\<forall>out e p r.
            halide_hexagon_dma_wrapper drv pool src dst = Inr out \<and>
            DmaTransferSetup e p r \<in> set (trace out) \<longrightarrow>
            uint (u16RoiStride p) =
              sint (choose_roi_stride (stride d1) (recommended_stride drv dev d0 d1)) mod 2 ^ 16)"
proof (intro conjI allI impI)
  assume "sint (recommended_stride drv dev d0 d1) < sint (stride d1)"
  then show "choose_roi_stride (stride d1) (recommended_stride drv dev d0 d1) = stride d1"
    by (simp add: choose_roi_stride_def)
next
  let ?c = "choose_roi_stride (stride d1) (recommended_stride drv dev d0 d1)"
  note u = wrapper_unfold [OF assms(1-4), of drv pool]
  note cs = check_stride_defined [OF assms(5,6)]
  show "halide_hexagon_dma_wrapper drv pool src dst = Inl Assert_failed \<longleftrightarrow>
          \<not> sint ?c dvd sint (stride d1)"
  proof (cases "sint ?c dvd sint (stride d1)")
    case False
    with u cs show ?thesis by (simp add: seq_def)
  next
    case True
    obtain desc pool1 evs where g: "desc_pool_get (allocator drv) pool = (desc, pool1, evs)"
      by (cases "desc_pool_get (allocator drv) pool")
    have "halide_hexagon_dma_wrapper drv pool src dst \<noteq> Inl Assert_failed"
    proof (cases "desc = 0")
      case True
      with u cs \<open>sint ?c dvd sint (stride d1)\<close> g show ?thesis by (simp add: seq_def)
    next
      case False
      let ?tp = "transfer_parm dev src dst d0 d1
                  (promote (u16W (walk_size drv dev d0 d1)))
                  (promote (u16H (walk_size drv dev d0 d1))) ?c desc"
      show ?thesis
      proof (cases ?tp)
        case (Inl f)
        then have "f \<noteq> Assert_failed" using transfer_parm_not_assert by metis
        with Inl u cs True g False show ?thesis by (simp add: seq_def)
      next
        case (Inr parm)
        from run_transfer_Inr [OF False] obtain out where
          "run_transfer drv dev pool1 evs desc parm = Inr out" by blast
        with Inr u cs True g False show ?thesis by (simp add: seq_def)
      qed
    qed
    with True show ?thesis by simp
  qed
next
  fix out e p r
  assume a: "halide_hexagon_dma_wrapper drv pool src dst = Inr out \<and>
            DmaTransferSetup e p r \<in> set (trace out)"
  then obtain desc where "transfer_parm dev src dst d0 d1
                  (promote (u16W (walk_size drv dev d0 d1)))
                  (promote (u16H (walk_size drv dev d0 d1)))
                  (choose_roi_stride (stride d1) (recommended_stride drv dev d0 d1))
                  desc = Inr p"
    using wrapper_setup_event [OF assms(1,3,4)] by blast
  then have "u16RoiStride p =
      to_uint16 (choose_roi_stride (stride d1) (recommended_stride drv dev d0 d1))"
    using transfer_parm_fields by blast
  then show "uint (u16RoiStride p) =
              sint (choose_roi_stride (stride d1) (recommended_stride drv dev d0 d1)) mod 2 ^ 16"
    by (simp only: to16 [OF w_var])
qed

text \<open>The definitions that evaluate the wrapper on the example values.\<close>

lemmas wrapper_eval =
  halide_hexagon_dma_wrapper_def seq_def Let_def check_dimensions_def dim_at_def
  dimensions_def is_luma_def is_chroma_def halide_assert_def walk_size_def
  recommended_stride_def choose_roi_stride_def check_stride_def c_rem_def desc_pool_get_def
  descriptor_size_def transfer_parm_def roi_origin_def chroma_adjust_def run_transfer_def
  desc_pool_put_def QURT_EOK_def promote_def to_uint16_def example_driver_def
  example_handle_def example_frame_def example_tile_def

text \<open>
  C1. The comment at line 247 announces a test that the destination stride is a multiple
  of the recommended stride, and 100 is not a multiple of 64. Line 245 has replaced
  \<^verbatim>\<open>roi_stride\<close> by the destination stride before the test, so the test is
  \<open>100 % 100 == 0\<close>: the transfer is not refused, and the driver is given stride 100.
\<close>

theorem stride_100_recommended_64_succeeds:
  "halide_hexagon_dma_wrapper (example_driver 64 0 0 0 halide_error_code_success) []
     (example_frame (example_handle eDmaFmt_NV12_Y False)
        [\<lparr>min_dim = 0, extent = 64, stride = 1\<rparr>, \<lparr>min_dim = 0, extent = 64, stride = 64\<rparr>])
     (example_tile
        [\<lparr>min_dim = 0, extent = 64, stride = 1\<rparr>, \<lparr>min_dim = 0, extent = 64, stride = 100\<rparr>])
   = Inr \<lparr>ret = halide_error_code_success,
          pool_after = [\<lparr>node_addr = 1000, descriptor = 4096, used = False\<rparr>,
                        \<lparr>node_addr = 1016, descriptor = 4160, used = False\<rparr>],
          trace = [Malloc 1000, HAP_cache_lock 128 4096, Malloc 1016,
                   Allocate_from_dma_pool 7 500,
                   DmaTransferSetup 500
                     \<lparr>eFmt = eDmaFmt_NV12_Y, u16FrameW = 64, u16FrameH = 64,
                      u16FrameStride = 64, u16RoiW = 64, u16RoiH = 64, u16RoiStride = 100,
                      bIsFmtUbwc = False, bUse16BitPaddingInL2 = False, pDescBuf = 4096,
                      pTcmDataBuf = 32768, pFrameBuf = 65536,
                      eTransferType = eDmaWrapper_DdrToL2, u16RoiX = 0, u16RoiY = 0\<rparr> 0,
                   Move 500 0, Wait 500 0,
                   Free_to_dma_pool 500 7 halide_error_code_success]\<rparr>"
  by (simp add: wrapper_eval)

text \<open>
  With destination stride 128 and recommended stride 64 the driver is given stride 128.
  Tested against the recommended stride, as the comment says, 128 passes and 100 does not.
\<close>

lemma stride_128_recommended_64_succeeds:
  "halide_hexagon_dma_wrapper (example_driver 64 0 0 0 halide_error_code_success) []
     (example_frame (example_handle eDmaFmt_NV12_Y False)
        [\<lparr>min_dim = 0, extent = 64, stride = 1\<rparr>, \<lparr>min_dim = 0, extent = 64, stride = 64\<rparr>])
     (example_tile
        [\<lparr>min_dim = 0, extent = 64, stride = 1\<rparr>, \<lparr>min_dim = 0, extent = 64, stride = 128\<rparr>])
   = Inr \<lparr>ret = halide_error_code_success,
          pool_after = [\<lparr>node_addr = 1000, descriptor = 4096, used = False\<rparr>,
                        \<lparr>node_addr = 1016, descriptor = 4160, used = False\<rparr>],
          trace = [Malloc 1000, HAP_cache_lock 128 4096, Malloc 1016,
                   Allocate_from_dma_pool 7 500,
                   DmaTransferSetup 500
                     \<lparr>eFmt = eDmaFmt_NV12_Y, u16FrameW = 64, u16FrameH = 64,
                      u16FrameStride = 64, u16RoiW = 64, u16RoiH = 64, u16RoiStride = 128,
                      bIsFmtUbwc = False, bUse16BitPaddingInL2 = False, pDescBuf = 4096,
                      pTcmDataBuf = 32768, pFrameBuf = 65536,
                      eTransferType = eDmaWrapper_DdrToL2, u16RoiX = 0, u16RoiY = 0\<rparr> 0,
                   Move 500 0, Wait 500 0,
                   Free_to_dma_pool 500 7 halide_error_code_success]\<rparr>"
  by (simp add: wrapper_eval)

lemma stride_check_against_recommended:
  "check_stride 128 64 = Inr () \<and> check_stride 100 64 = Inl Assert_failed"
  by (simp add: check_stride_positive)

subsection \<open>Origin of the region\<close>

text \<open>
  The origin computed at lines 277 to 291, as integers modulo \<open>2 ^ 16\<close>: X by direction;
  Y by direction unless the format is raw and the destination has three dimensions, and
  then the read offset plus \<open>dim[1].min\<close> plus the plane offset, for both directions.
\<close>

lemma roi_origin_by_direction:
  assumes "roi_origin dev src dst d0 d1 = Inr (x, y)"
  shows "(is_write dev \<longrightarrow>
            uint x = (uint (offset_wrx dev) * sint (stride d0)) mod 2 ^ 16) \<and>
         (\<not> is_write dev \<longrightarrow>
            uint x = ((uint (offset_rdx dev) + sint (min_dim d0)) * sint (stride d0)) mod 2 ^ 16) \<and>
         (\<not> (fmt dev = eDmaFmt_RawData \<and> dimensions dst = 3) \<longrightarrow>
            (is_write dev \<longrightarrow> y = offset_wry dev) \<and>
            (\<not> is_write dev \<longrightarrow>
               uint y = (uint (offset_rdy dev) + sint (min_dim d1)) mod 2 ^ 16)) \<and>
         (fmt dev = eDmaFmt_RawData \<and> dimensions dst = 3 \<longrightarrow>
            (\<exists>d2 s1. dim_at dst 2 = Inr d2 \<and> dim_at src 1 = Inr s1 \<and>
               uint y = (uint (offset_rdy dev) + sint (min_dim d1)
                         + sint (min_dim d2) * sint (stride s1)) mod 2 ^ 16))"
proof -
  have xw: "uint (to_uint16 (promote (offset_wrx dev) * stride d0)) =
              (uint (offset_wrx dev) * sint (stride d0)) mod 2 ^ 16"
    by (intro w_intros)
  have xr: "uint (to_uint16 ((promote (offset_rdx dev) + min_dim d0) * stride d0)) =
              ((uint (offset_rdx dev) + sint (min_dim d0)) * sint (stride d0)) mod 2 ^ 16"
    by (intro w_intros)
  have yr: "uint (to_uint16 (promote (offset_rdy dev) + min_dim d1)) =
              (uint (offset_rdy dev) + sint (min_dim d1)) mod 2 ^ 16"
    by (intro w_intros)
  have yp: "uint (to_uint16 (promote (offset_rdy dev) + min_dim d1 + min_dim d2 * stride s1)) =
              (uint (offset_rdy dev) + sint (min_dim d1) + sint (min_dim d2) * sint (stride s1))
                mod 2 ^ 16" for d2 s1
    by (intro w_intros)
  show ?thesis
  proof (cases "fmt dev = eDmaFmt_RawData \<and> dimensions dst = 3")
    case False
    with assms xw xr yr show ?thesis
      by (auto simp: roi_origin_def Let_def split: if_splits)
  next
    case True
    with assms obtain d2 s1 where
      d: "dim_at dst 2 = Inr d2" "dim_at src 1 = Inr s1"
      and y: "y = to_uint16 (promote (offset_rdy dev) + min_dim d1 + min_dim d2 * stride s1)"
      and x: "x = (if is_write dev then to_uint16 (promote (offset_wrx dev) * stride d0)
               else to_uint16 ((promote (offset_rdx dev) + min_dim d0) * stride d0))"
      by (auto simp: roi_origin_def Let_def seq_def split: sum.splits)
    with True xw xr yp [of d2 s1] show ?thesis by auto
  qed
qed

text \<open>
  C5. A write transfer of a raw buffer with three dimensions: the write offset in Y is 5,
  the read offset is 0, the destination has \<open>dim[1].min = 7\<close> and \<open>dim[2].min = 1\<close>, the
  stride of the source in dimension 1 is 64. Line 290 overwrites the Y origin with the read
  offset plus \<open>dim[1].min\<close> plus the plane offset, \<open>0 + 7 + 1 * 64 = 71\<close>; the write
  origin plus the plane offset would be \<open>5 + 64 = 69\<close>.
\<close>

theorem raw_planar_write_origin:
  "halide_hexagon_dma_wrapper (example_driver 64 0 0 0 halide_error_code_success) []
     (example_frame ((example_handle eDmaFmt_RawData True)\<lparr>offset_wry := 5\<rparr>)
        [\<lparr>min_dim = 0, extent = 64, stride = 1\<rparr>, \<lparr>min_dim = 0, extent = 64, stride = 64\<rparr>,
         \<lparr>min_dim = 0, extent = 3, stride = 4096\<rparr>])
     (example_tile
        [\<lparr>min_dim = 0, extent = 64, stride = 1\<rparr>, \<lparr>min_dim = 7, extent = 8, stride = 64\<rparr>,
         \<lparr>min_dim = 1, extent = 1, stride = 512\<rparr>])
   = Inr \<lparr>ret = halide_error_code_success,
          pool_after = [\<lparr>node_addr = 1000, descriptor = 4096, used = False\<rparr>,
                        \<lparr>node_addr = 1016, descriptor = 4160, used = False\<rparr>],
          trace = [Malloc 1000, HAP_cache_lock 128 4096, Malloc 1016,
                   Allocate_from_dma_pool 7 500,
                   DmaTransferSetup 500
                     \<lparr>eFmt = eDmaFmt_RawData, u16FrameW = 64, u16FrameH = 64,
                      u16FrameStride = 64, u16RoiW = 64, u16RoiH = 8, u16RoiStride = 64,
                      bIsFmtUbwc = False, bUse16BitPaddingInL2 = False, pDescBuf = 4096,
                      pTcmDataBuf = 32768, pFrameBuf = 65536,
                      eTransferType = eDmaWrapper_L2ToDdr, u16RoiX = 0, u16RoiY = 71\<rparr> 0,
                   Move 500 0, Wait 500 0,
                   Free_to_dma_pool 500 7 halide_error_code_success]\<rparr>"
  by (simp add: wrapper_eval)

subsection \<open>Chroma planes\<close>

lemma chroma_not_raw: "is_chroma f \<Longrightarrow> f \<noteq> eDmaFmt_RawData"
  by (auto simp: is_chroma_def)

lemma mod_in_range: "0 \<le> k \<Longrightarrow> k < 2 ^ 16 \<Longrightarrow> k mod 2 ^ 16 = (k::int)"
  by simp

text \<open>
  The fields of a structure that a chroma transfer hands to the driver, as integers modulo
  \<open>2 ^ 16\<close> and as the integers themselves when these fit.
\<close>

lemma chroma_roi_fields:
  assumes "device src = Some dev" and "is_chroma (fmt dev)"
    and "dim_at dst 0 = Inr d0" and "dim_at dst 1 = Inr d1"
    and "halide_hexagon_dma_wrapper drv pool src dst = Inr out"
    and "DmaTransferSetup e p r \<in> set (trace out)"
  shows "\<exists>x y. roi_origin dev src dst d0 d1 = Inr (x, y) \<and>
           uint (u16RoiH p) = (uint (u16H (walk_size drv dev d0 d1)) * 2) mod 2 ^ 16 \<and>
           (uint (u16H (walk_size drv dev d0 d1)) < 2 ^ 15 \<longrightarrow>
              uint (u16RoiH p) = uint (u16H (walk_size drv dev d0 d1)) * 2) \<and>
           (is_write dev \<longrightarrow>
              y = offset_wry dev \<and>
              uint (u16RoiY p) = (uint y * 2) mod 2 ^ 16 \<and>
              (uint y < 2 ^ 15 \<longrightarrow> uint (u16RoiY p) = uint y * 2)) \<and>
           (\<not> is_write dev \<longrightarrow>
              uint y = (uint (offset_rdy dev) + sint (min_dim d1)) mod 2 ^ 16 \<and>
              uint (u16RoiY p) = ((uint y - sint (frame_height dev)) * 2) mod 2 ^ 16 \<and>
              (0 \<le> uint y - sint (frame_height dev) \<and>
               uint y - sint (frame_height dev) < 2 ^ 15 \<longrightarrow>
                 uint (u16RoiY p) = (uint y - sint (frame_height dev)) * 2))"
proof -
  from wrapper_setup_event [OF assms(1,3,4,5,6)] obtain desc where
    tp: "transfer_parm dev src dst d0 d1
           (promote (u16W (walk_size drv dev d0 d1)))
           (promote (u16H (walk_size drv dev d0 d1)))
           (choose_roi_stride (stride d1) (recommended_stride drv dev d0 d1)) desc = Inr p"
    by blast
  let ?h = "u16H (walk_size drv dev d0 d1)"
  let ?F = "sint (frame_height dev)"
  from transfer_parm_fields [OF tp] obtain x y where
    ro: "roi_origin dev src dst d0 d1 = Inr (x, y)"
    and py: "u16RoiY p = snd (chroma_adjust dev (promote ?h) y)"
    and ph: "u16RoiH p = fst (chroma_adjust dev (promote ?h) y)"
    by blast
  from ph assms(2) have "u16RoiH p = to_uint16 (promote ?h * 2)"
    by (simp add: chroma_adjust_def)
  then have H: "uint (u16RoiH p) = (uint ?h * 2) mod 2 ^ 16"
    by (simp only: to16 [OF w_mul [OF promote_int w_two]])
  have H': "uint (u16RoiH p) = uint ?h * 2" if "uint ?h < 2 ^ 15"
    using that H by simp
  have W: "y = offset_wry dev \<and> uint (u16RoiY p) = (uint y * 2) mod 2 ^ 16 \<and>
           (uint y < 2 ^ 15 \<longrightarrow> uint (u16RoiY p) = uint y * 2)" if "is_write dev"
  proof -
    from ro that chroma_not_raw [OF assms(2)] have "y = offset_wry dev"
      by (simp add: roi_origin_def Let_def)
    moreover from py assms(2) that have "u16RoiY p = to_uint16 (promote y * 2)"
      by (simp add: chroma_adjust_def)
    then have "uint (u16RoiY p) = (uint y * 2) mod 2 ^ 16"
      by (simp only: to16 [OF w_mul [OF promote_int w_two]])
    ultimately show ?thesis by simp
  qed
  have R: "uint y = (uint (offset_rdy dev) + sint (min_dim d1)) mod 2 ^ 16 \<and>
           uint (u16RoiY p) = ((uint y - ?F) * 2) mod 2 ^ 16 \<and>
           (0 \<le> uint y - ?F \<and> uint y - ?F < 2 ^ 15 \<longrightarrow>
              uint (u16RoiY p) = (uint y - ?F) * 2)"
    if "\<not> is_write dev"
  proof -
    from ro that chroma_not_raw [OF assms(2)]
    have "y = to_uint16 (promote (offset_rdy dev) + min_dim d1)"
      by (simp add: roi_origin_def Let_def)
    then have y: "uint y = (uint (offset_rdy dev) + sint (min_dim d1)) mod 2 ^ 16"
      by (simp only: to16 [OF w_add [OF promote_int w_var]])
    from py assms(2) that have "u16RoiY p = to_uint16 ((promote y - frame_height dev) * 2)"
      by (simp add: chroma_adjust_def)
    then have m: "uint (u16RoiY p) = ((uint y - ?F) * 2) mod 2 ^ 16"
      by (simp only: to16 [OF w_mul [OF w_sub [OF promote_int w_var] w_two]])
    have "uint (u16RoiY p) = (uint y - ?F) * 2"
      if "0 \<le> uint y - ?F \<and> uint y - ?F < 2 ^ 15"
      using that m by (simp add: mod_in_range)
    with y m show ?thesis by blast
  qed
  from ro H H' W R show ?thesis by blast
qed

lemma run_transfer_programs:
  assumes "desc \<noteq> 0"
    and "halide_hexagon_allocate_from_dma_pool drv (dma_engine dev) = engine"
    and "engine \<noteq> 0"
  shows "\<exists>out. run_transfer drv dev pool ev desc parm = Inr out \<and>
           DmaTransferSetup engine parm (nDmaWrapper_DmaTransferSetup drv engine parm)
             \<in> set (trace out)"
  using assms by (simp add: run_transfer_def desc_pool_put_def seq_def Let_def)

lemma roi_origin_chroma:
  assumes "is_chroma (fmt dev)"
  shows "roi_origin dev src dst d0 d1 =
           Inr (if is_write dev then to_uint16 (promote (offset_wrx dev) * stride d0)
                else to_uint16 ((promote (offset_rdx dev) + min_dim d0) * stride d0),
                if is_write dev then offset_wry dev
                else to_uint16 (promote (offset_rdy dev) + min_dim d1))"
  using chroma_not_raw [OF assms] by (simp add: roi_origin_def Let_def)

lemma transfer_parm_Inr:
  "roi_origin dev src dst d0 d1 = Inr xy \<Longrightarrow>
   \<exists>p. transfer_parm dev src dst d0 d1 w h s desc = Inr p"
  by (cases xy) (simp add: transfer_parm_def seq_def split: prod.splits)

text \<open>
  C4. A chroma transfer that has leased a descriptor and acquired an engine hands the
  driver exactly one structure. It has twice the planned height of the region; for a write
  its Y origin is twice the computed Y origin, and for a read with frame height \<open>F\<close> and
  computed Y origin \<open>Y\<close> it is \<open>(Y - F) * 2\<close>. The fields are 16 bits wide: the values
  are those of the integer expressions modulo \<open>2 ^ 16\<close>, and the integer expressions
  themselves when these fit.
\<close>

theorem chroma_roi_programmed:
  assumes "device src = Some dev" and "is_chroma (fmt dev)"
    and "check_dimensions dev src = Inr ()"
    and "dim_at dst 0 = Inr d0" and "dim_at dst 1 = Inr d1"
    and "check_stride (stride d1)
           (choose_roi_stride (stride d1) (recommended_stride drv dev d0 d1)) = Inr ()"
    and "desc_pool_get (allocator drv) pool = (desc, pool1, ev)" and "desc \<noteq> 0"
    and "halide_hexagon_allocate_from_dma_pool drv (dma_engine dev) = engine"
    and "engine \<noteq> 0"
  shows "\<exists>out p x y.
           halide_hexagon_dma_wrapper drv pool src dst = Inr out \<and>
           DmaTransferSetup engine p (nDmaWrapper_DmaTransferSetup drv engine p)
             \<in> set (trace out) \<and>
           (\<forall>e' p' r'. DmaTransferSetup e' p' r' \<in> set (trace out) \<longrightarrow> p' = p) \<and>
           roi_origin dev src dst d0 d1 = Inr (x, y) \<and>
           uint (u16RoiH p) = (uint (u16H (walk_size drv dev d0 d1)) * 2) mod 2 ^ 16 \<and>
           (uint (u16H (walk_size drv dev d0 d1)) < 2 ^ 15 \<longrightarrow>
              uint (u16RoiH p) = uint (u16H (walk_size drv dev d0 d1)) * 2) \<and>
           (is_write dev \<longrightarrow>
              y = offset_wry dev \<and>
              uint (u16RoiY p) = (uint y * 2) mod 2 ^ 16 \<and>
              (uint y < 2 ^ 15 \<longrightarrow> uint (u16RoiY p) = uint y * 2)) \<and>
           (\<not> is_write dev \<longrightarrow>
              uint y = (uint (offset_rdy dev) + sint (min_dim d1)) mod 2 ^ 16 \<and>
              uint (u16RoiY p) = ((uint y - sint (frame_height dev)) * 2) mod 2 ^ 16 \<and>
              (0 \<le> uint y - sint (frame_height dev) \<and>
               uint y - sint (frame_height dev) < 2 ^ 15 \<longrightarrow>
                 uint (u16RoiY p) = (uint y - sint (frame_height dev)) * 2))"
proof -
  let ?W = "promote (u16W (walk_size drv dev d0 d1))"
  let ?H = "promote (u16H (walk_size drv dev d0 d1))"
  let ?S = "choose_roi_stride (stride d1) (recommended_stride drv dev d0 d1)"
  obtain x y where ro: "roi_origin dev src dst d0 d1 = Inr (x, y)"
    using roi_origin_chroma [OF assms(2)] by blast
  from transfer_parm_Inr [OF ro] obtain p where
    tp: "transfer_parm dev src dst d0 d1 ?W ?H ?S desc = Inr p" by blast
  from wrapper_unfold [OF assms(1,3,4,5), of drv pool] assms(6,7,8) tp
  have w: "halide_hexagon_dma_wrapper drv pool src dst = run_transfer drv dev pool1 ev desc p"
    by (simp add: seq_def)
  from run_transfer_programs [OF assms(8,9,10)] obtain out where
    out: "run_transfer drv dev pool1 ev desc p = Inr out"
    and prog: "DmaTransferSetup engine p (nDmaWrapper_DmaTransferSetup drv engine p)
                 \<in> set (trace out)"
    by blast
  from w out have wo: "halide_hexagon_dma_wrapper drv pool src dst = Inr out" by simp
  have only: "\<forall>e' p' r'. DmaTransferSetup e' p' r' \<in> set (trace out) \<longrightarrow> p' = p"
    using run_transfer_setup [OF out] desc_pool_get_no_setup [OF assms(7)] by blast
  from chroma_roi_fields [OF assms(1,2,4,5) wo prog] ro
  have fields:
    "uint (u16RoiH p) = (uint (u16H (walk_size drv dev d0 d1)) * 2) mod 2 ^ 16 \<and>
           (uint (u16H (walk_size drv dev d0 d1)) < 2 ^ 15 \<longrightarrow>
              uint (u16RoiH p) = uint (u16H (walk_size drv dev d0 d1)) * 2) \<and>
           (is_write dev \<longrightarrow>
              y = offset_wry dev \<and>
              uint (u16RoiY p) = (uint y * 2) mod 2 ^ 16 \<and>
              (uint y < 2 ^ 15 \<longrightarrow> uint (u16RoiY p) = uint y * 2)) \<and>
           (\<not> is_write dev \<longrightarrow>
              uint y = (uint (offset_rdy dev) + sint (min_dim d1)) mod 2 ^ 16 \<and>
              uint (u16RoiY p) = ((uint y - sint (frame_height dev)) * 2) mod 2 ^ 16 \<and>
              (0 \<le> uint y - sint (frame_height dev) \<and>
               uint y - sint (frame_height dev) < 2 ^ 15 \<longrightarrow>
                 uint (u16RoiY p) = (uint y - sint (frame_height dev)) * 2))"
    by auto
  from wo prog only ro fields show ?thesis by blast
qed

theorem chroma_roi_programmed_witness:
  "(\<exists>out p.
      halide_hexagon_dma_wrapper (example_driver 64 0 0 0 halide_error_code_success) []
        (example_frame (example_handle eDmaFmt_NV12_UV False)
           [\<lparr>min_dim = 0, extent = 32, stride = 2\<rparr>, \<lparr>min_dim = 0, extent = 32, stride = 64\<rparr>,
            \<lparr>min_dim = 0, extent = 2, stride = 1\<rparr>])
        (example_tile
           [\<lparr>min_dim = 0, extent = 32, stride = 2\<rparr>, \<lparr>min_dim = 70, extent = 16, stride = 64\<rparr>,
            \<lparr>min_dim = 0, extent = 2, stride = 1\<rparr>]) = Inr out \<and>
      DmaTransferSetup 500 p 0 \<in> set (trace out) \<and>
      uint (u16RoiH p) = 16 * 2 \<and> uint (u16RoiY p) = (70 - 64) * 2) \<and>
   (\<exists>out p.
      halide_hexagon_dma_wrapper (example_driver 64 0 0 0 halide_error_code_success) []
        (example_frame ((example_handle eDmaFmt_NV12_UV True)\<lparr>offset_wry := 3\<rparr>)
           [\<lparr>min_dim = 0, extent = 32, stride = 2\<rparr>, \<lparr>min_dim = 0, extent = 32, stride = 64\<rparr>,
            \<lparr>min_dim = 0, extent = 2, stride = 1\<rparr>])
        (example_tile
           [\<lparr>min_dim = 0, extent = 32, stride = 2\<rparr>, \<lparr>min_dim = 70, extent = 16, stride = 64\<rparr>,
            \<lparr>min_dim = 0, extent = 2, stride = 1\<rparr>]) = Inr out \<and>
      DmaTransferSetup 500 p 0 \<in> set (trace out) \<and>
      uint (u16RoiH p) = 16 * 2 \<and> uint (u16RoiY p) = 3 * 2)"
proof -
  let ?drv = "example_driver 64 0 0 0 halide_error_code_success"
  let ?d0 = "\<lparr>min_dim = 0, extent = 32, stride = 2\<rparr>"
  let ?d1 = "\<lparr>min_dim = 70, extent = 16, stride = 64\<rparr>"
  let ?d2 = "\<lparr>min_dim = 0, extent = 2, stride = 1\<rparr>"
  let ?sds = "[?d0, \<lparr>min_dim = 0, extent = 32, stride = 64\<rparr>, ?d2]"
  let ?dst = "example_tile [?d0, ?d1, ?d2]"
  let ?pool1 = "[\<lparr>node_addr = 1000, descriptor = 4096, used = True\<rparr>,
                 \<lparr>node_addr = 1016, descriptor = 4160, used = False\<rparr>]"
  let ?ev = "[Malloc 1000, HAP_cache_lock 128 4096, Malloc 1016]"
  have common:
    "device (example_frame dev ?sds) = Some dev"
    "dim_at ?dst 0 = Inr ?d0" "dim_at ?dst 1 = Inr ?d1"
    "desc_pool_get (allocator ?drv) [] = (4096, ?pool1, ?ev)"
    "halide_hexagon_allocate_from_dma_pool ?drv h = 500"
    "nDmaWrapper_DmaTransferSetup ?drv e q = 0"
    "recommended_stride ?drv dev ?d0 ?d1 = 64"
    "uint (u16H (walk_size ?drv dev ?d0 ?d1)) = 16"
    for dev h e q
    by (simp_all add: example_frame_def example_tile_def dim_at_def desc_pool_get_def
          descriptor_size_def example_driver_def recommended_stride_def walk_size_def
          to_uint16_def)
  have cs: "check_stride (stride ?d1)
              (choose_roi_stride (stride ?d1) (recommended_stride ?drv dev ?d0 ?d1)) = Inr ()"
    for dev
    by (simp add: common check_stride_positive choose_roi_stride_def)
  have nz: "(4096::nat) \<noteq> 0" "(500::nat) \<noteq> 0" by simp_all
  have cd: "is_chroma (fmt dev) \<Longrightarrow> check_dimensions dev (example_frame dev ?sds) = Inr ()"
    for dev
    by (auto simp: check_dimensions_def example_frame_def seq_def is_luma_def is_chroma_def
          halide_assert_def dimensions_def dim_at_def)
  \<comment> \<open>a read\<close>
  let ?rd = "example_handle eDmaFmt_NV12_UV False"
  have rc: "is_chroma (fmt ?rd)" by (simp add: is_chroma_def example_handle_def)
  note tr = chroma_roi_programmed
         [OF common(1) rc cd [OF rc] common(2,3) cs common(4) nz(1) common(5) nz(2)]
  have R: "\<exists>out p.
      halide_hexagon_dma_wrapper ?drv [] (example_frame ?rd ?sds) ?dst = Inr out \<and>
      DmaTransferSetup 500 p 0 \<in> set (trace out) \<and>
      uint (u16RoiH p) = 16 * 2 \<and> uint (u16RoiY p) = (70 - 64) * 2"
    using tr by (auto simp: common example_handle_def)
  \<comment> \<open>a write\<close>
  let ?wr = "(example_handle eDmaFmt_NV12_UV True)\<lparr>offset_wry := 3\<rparr>"
  have wc: "is_chroma (fmt ?wr)" by (simp add: is_chroma_def example_handle_def)
  note tw = chroma_roi_programmed
         [OF common(1) wc cd [OF wc] common(2,3) cs common(4) nz(1) common(5) nz(2)]
  have W: "\<exists>out p.
      halide_hexagon_dma_wrapper ?drv [] (example_frame ?wr ?sds) ?dst = Inr out \<and>
      DmaTransferSetup 500 p 0 \<in> set (trace out) \<and>
      uint (u16RoiH p) = 16 * 2 \<and> uint (u16RoiY p) = 3 * 2"
    using tw by (auto simp: common example_handle_def)
  from R W show ?thesis by (rule conjI)
qed

subsection \<open>Exit paths of the transfer\<close>

lemma desc_pool_get_no_release:
  "desc_pool_get env pool = (d, pool1, ev) \<Longrightarrow> Free_to_dma_pool a b c \<notin> set ev"
  by (auto simp: desc_pool_get_def Let_def split: option.splits if_splits)

lemma mark_free_released:
  "\<forall>n \<in> set (mark_free desc pool). descriptor n = desc \<longrightarrow> \<not> used n"
  by (induction pool) simp_all

text \<open>
  C6. Once the descriptor is leased and the engine acquired: a status other than
  \<^verbatim>\<open>QURT_EOK\<close> from the setup, the move or the wait ends the call at once with
  \<^verbatim>\<open>halide_error_code_device_buffer_copy_failed\<close>, the pool is as the lease left it
  (the leased descriptor still in use) and the engine is not given back. When all three
  succeed, the descriptor is marked free, the engine is given back to its pool, and the
  result is the status of that release: its failure code, or success.
\<close>

theorem transfer_exit_paths:
  assumes "device src = Some dev" and "check_dimensions dev src = Inr ()"
    and "dim_at dst 0 = Inr d0" and "dim_at dst 1 = Inr d1"
    and "check_stride (stride d1)
           (choose_roi_stride (stride d1) (recommended_stride drv dev d0 d1)) = Inr ()"
    and "desc_pool_get (allocator drv) pool = (desc, pool1, ev)" and "desc \<noteq> 0"
    and "transfer_parm dev src dst d0 d1
           (promote (u16W (walk_size drv dev d0 d1)))
           (promote (u16H (walk_size drv dev d0 d1)))
           (choose_roi_stride (stride d1) (recommended_stride drv dev d0 d1)) desc = Inr parm"
    and "halide_hexagon_allocate_from_dma_pool drv (dma_engine dev) = engine"
    and "engine \<noteq> 0"
  shows "(nDmaWrapper_DmaTransferSetup drv engine parm \<noteq> QURT_EOK \<longrightarrow>
            halide_hexagon_dma_wrapper drv pool src dst =
              Inr \<lparr>ret = halide_error_code_device_buffer_copy_failed,
                   pool_after = pool1,
                   trace = ev @ [Allocate_from_dma_pool (dma_engine dev) engine,
                                 DmaTransferSetup engine parm
                                   (nDmaWrapper_DmaTransferSetup drv engine parm)]\<rparr>) \<and>
         (nDmaWrapper_DmaTransferSetup drv engine parm = QURT_EOK \<and>
          nDmaWrapper_Move drv engine \<noteq> QURT_EOK \<longrightarrow>
            halide_hexagon_dma_wrapper drv pool src dst =
              Inr \<lparr>ret = halide_error_code_device_buffer_copy_failed,
                   pool_after = pool1,
                   trace = ev @ [Allocate_from_dma_pool (dma_engine dev) engine,
                                 DmaTransferSetup engine parm QURT_EOK,
                                 Move engine (nDmaWrapper_Move drv engine)]\<rparr>) \<and>
         (nDmaWrapper_DmaTransferSetup drv engine parm = QURT_EOK \<and>
          nDmaWrapper_Move drv engine = QURT_EOK \<and>
          nDmaWrapper_Wait drv engine \<noteq> QURT_EOK \<longrightarrow>
            halide_hexagon_dma_wrapper drv pool src dst =
              Inr \<lparr>ret = halide_error_code_device_buffer_copy_failed,
                   pool_after = pool1,
                   trace = ev @ [Allocate_from_dma_pool (dma_engine dev) engine,
                                 DmaTransferSetup engine parm QURT_EOK,
                                 Move engine QURT_EOK,
                                 Wait engine (nDmaWrapper_Wait drv engine)]\<rparr>) \<and>
         (nDmaWrapper_DmaTransferSetup drv engine parm = QURT_EOK \<and>
          nDmaWrapper_Move drv engine = QURT_EOK \<and>
          nDmaWrapper_Wait drv engine = QURT_EOK \<longrightarrow>
            halide_hexagon_dma_wrapper drv pool src dst =
              Inr \<lparr>ret = (if halide_hexagon_free_to_dma_pool drv engine (dma_engine dev)
                              \<noteq> halide_error_code_success
                           then halide_hexagon_free_to_dma_pool drv engine (dma_engine dev)
                           else halide_error_code_success),
                   pool_after = mark_free desc pool1,
                   trace = ev @ [Allocate_from_dma_pool (dma_engine dev) engine,
                                 DmaTransferSetup engine parm QURT_EOK,
                                 Move engine QURT_EOK,
                                 Wait engine QURT_EOK,
                                 Free_to_dma_pool engine (dma_engine dev)
                                   (halide_hexagon_free_to_dma_pool drv engine
                                      (dma_engine dev))]\<rparr>) \<and>
         (\<exists>n \<in> set pool1. descriptor n = desc \<and> used n) \<and>
         (\<forall>n \<in> set (mark_free desc pool1). descriptor n = desc \<longrightarrow> \<not> used n) \<and>
         (\<forall>a b c. Free_to_dma_pool a b c \<notin> set ev)"
proof -
  note u = wrapper_unfold [OF assms(1-4), of drv pool]
  have w: "halide_hexagon_dma_wrapper drv pool src dst = run_transfer drv dev pool1 ev desc parm"
    using u assms(5-8) by (simp add: seq_def)
  from desc_pool_get_shape [OF assms(6,7)] have leased: "\<exists>n \<in> set pool1. descriptor n = desc \<and> used n"
    by auto
  have nofree: "\<forall>a b c. Free_to_dma_pool a b c \<notin> set ev"
    using desc_pool_get_no_release [OF assms(6)] by blast
  have p1: "nDmaWrapper_DmaTransferSetup drv engine parm \<noteq> QURT_EOK \<longrightarrow>
            run_transfer drv dev pool1 ev desc parm =
              Inr \<lparr>ret = halide_error_code_device_buffer_copy_failed,
                   pool_after = pool1,
                   trace = ev @ [Allocate_from_dma_pool (dma_engine dev) engine,
                                 DmaTransferSetup engine parm
                                   (nDmaWrapper_DmaTransferSetup drv engine parm)]\<rparr>"
    using assms(9,10) by (simp add: run_transfer_def Let_def)
  have p2: "nDmaWrapper_DmaTransferSetup drv engine parm = QURT_EOK \<and>
          nDmaWrapper_Move drv engine \<noteq> QURT_EOK \<longrightarrow>
            run_transfer drv dev pool1 ev desc parm =
              Inr \<lparr>ret = halide_error_code_device_buffer_copy_failed,
                   pool_after = pool1,
                   trace = ev @ [Allocate_from_dma_pool (dma_engine dev) engine,
                                 DmaTransferSetup engine parm QURT_EOK,
                                 Move engine (nDmaWrapper_Move drv engine)]\<rparr>"
    using assms(9,10) by (simp add: run_transfer_def Let_def)
  have p3: "nDmaWrapper_DmaTransferSetup drv engine parm = QURT_EOK \<and>
          nDmaWrapper_Move drv engine = QURT_EOK \<and>
          nDmaWrapper_Wait drv engine \<noteq> QURT_EOK \<longrightarrow>
            run_transfer drv dev pool1 ev desc parm =
              Inr \<lparr>ret = halide_error_code_device_buffer_copy_failed,
                   pool_after = pool1,
                   trace = ev @ [Allocate_from_dma_pool (dma_engine dev) engine,
                                 DmaTransferSetup engine parm QURT_EOK,
                                 Move engine QURT_EOK,
                                 Wait engine (nDmaWrapper_Wait drv engine)]\<rparr>"
    using assms(9,10) by (simp add: run_transfer_def Let_def)
  have p4: "nDmaWrapper_DmaTransferSetup drv engine parm = QURT_EOK \<and>
          nDmaWrapper_Move drv engine = QURT_EOK \<and>
          nDmaWrapper_Wait drv engine = QURT_EOK \<longrightarrow>
            run_transfer drv dev pool1 ev desc parm =
              Inr \<lparr>ret = (if halide_hexagon_free_to_dma_pool drv engine (dma_engine dev)
                              \<noteq> halide_error_code_success
                           then halide_hexagon_free_to_dma_pool drv engine (dma_engine dev)
                           else halide_error_code_success),
                   pool_after = mark_free desc pool1,
                   trace = ev @ [Allocate_from_dma_pool (dma_engine dev) engine,
                                 DmaTransferSetup engine parm QURT_EOK,
                                 Move engine QURT_EOK,
                                 Wait engine QURT_EOK,
                                 Free_to_dma_pool engine (dma_engine dev)
                                   (halide_hexagon_free_to_dma_pool drv engine
                                      (dma_engine dev))]\<rparr>"
    using assms(7,9,10) by (simp add: run_transfer_def desc_pool_put_def seq_def Let_def)
  from p1 p2 p3 p4 leased nofree mark_free_released [of desc pool1] show ?thesis
    unfolding w by blast
qed


theorem transfer_exit_paths_witness:
  "halide_hexagon_dma_wrapper (example_driver 64 0 1 0 halide_error_code_success) []
     (example_frame (example_handle eDmaFmt_NV12_Y False)
        [\<lparr>min_dim = 0, extent = 64, stride = 1\<rparr>, \<lparr>min_dim = 0, extent = 64, stride = 64\<rparr>])
     (example_tile
        [\<lparr>min_dim = 0, extent = 64, stride = 1\<rparr>, \<lparr>min_dim = 0, extent = 64, stride = 64\<rparr>])
   = Inr \<lparr>ret = halide_error_code_device_buffer_copy_failed,
          pool_after = [\<lparr>node_addr = 1000, descriptor = 4096, used = True\<rparr>,
                        \<lparr>node_addr = 1016, descriptor = 4160, used = False\<rparr>],
          trace = [Malloc 1000, HAP_cache_lock 128 4096, Malloc 1016,
                   Allocate_from_dma_pool 7 500,
                   DmaTransferSetup 500
                     \<lparr>eFmt = eDmaFmt_NV12_Y, u16FrameW = 64, u16FrameH = 64,
                      u16FrameStride = 64, u16RoiW = 64, u16RoiH = 64, u16RoiStride = 64,
                      bIsFmtUbwc = False, bUse16BitPaddingInL2 = False, pDescBuf = 4096,
                      pTcmDataBuf = 32768, pFrameBuf = 65536,
                      eTransferType = eDmaWrapper_DdrToL2, u16RoiX = 0, u16RoiY = 0\<rparr> 0,
                   Move 500 1]\<rparr> \<and>
   halide_hexagon_dma_wrapper (example_driver 64 0 0 0 halide_error_code_generic_error) []
     (example_frame (example_handle eDmaFmt_NV12_Y False)
        [\<lparr>min_dim = 0, extent = 64, stride = 1\<rparr>, \<lparr>min_dim = 0, extent = 64, stride = 64\<rparr>])
     (example_tile
        [\<lparr>min_dim = 0, extent = 64, stride = 1\<rparr>, \<lparr>min_dim = 0, extent = 64, stride = 64\<rparr>])
   = Inr \<lparr>ret = halide_error_code_generic_error,
          pool_after = [\<lparr>node_addr = 1000, descriptor = 4096, used = False\<rparr>,
                        \<lparr>node_addr = 1016, descriptor = 4160, used = False\<rparr>],
          trace = [Malloc 1000, HAP_cache_lock 128 4096, Malloc 1016,
                   Allocate_from_dma_pool 7 500,
                   DmaTransferSetup 500
                     \<lparr>eFmt = eDmaFmt_NV12_Y, u16FrameW = 64, u16FrameH = 64,
                      u16FrameStride = 64, u16RoiW = 64, u16RoiH = 64, u16RoiStride = 64,
                      bIsFmtUbwc = False, bUse16BitPaddingInL2 = False, pDescBuf = 4096,
                      pTcmDataBuf = 32768, pFrameBuf = 65536,
                      eTransferType = eDmaWrapper_DdrToL2, u16RoiX = 0, u16RoiY = 0\<rparr> 0,
                   Move 500 0, Wait 500 0,
                   Free_to_dma_pool 500 7 halide_error_code_generic_error]\<rparr>"
proof -
  let ?dev = "example_handle eDmaFmt_NV12_Y False"
  let ?d0 = "\<lparr>min_dim = 0, extent = 64, stride = 1\<rparr>"
  let ?d1 = "\<lparr>min_dim = 0, extent = 64, stride = 64\<rparr>"
  let ?src = "example_frame ?dev [?d0, ?d1]"
  let ?dst = "example_tile [?d0, ?d1]"
  let ?parm = "\<lparr>eFmt = eDmaFmt_NV12_Y, u16FrameW = 64, u16FrameH = 64,
                      u16FrameStride = 64, u16RoiW = 64, u16RoiH = 64, u16RoiStride = 64,
                      bIsFmtUbwc = False, bUse16BitPaddingInL2 = False, pDescBuf = 4096,
                      pTcmDataBuf = 32768, pFrameBuf = 65536,
                      eTransferType = eDmaWrapper_DdrToL2, u16RoiX = 0, u16RoiY = 0\<rparr>"
  let ?pool1 = "[\<lparr>node_addr = 1000, descriptor = 4096, used = True\<rparr>,
                 \<lparr>node_addr = 1016, descriptor = 4160, used = False\<rparr>]"
  let ?ev = "[Malloc 1000, HAP_cache_lock 128 4096, Malloc 1016]"
  have h1: "device ?src = Some ?dev" by (simp add: example_frame_def)
  have h2: "check_dimensions ?dev ?src = Inr ()"
    by (simp add: check_dimensions_def example_handle_def example_frame_def seq_def
          is_luma_def is_chroma_def halide_assert_def dimensions_def)
  have h3: "dim_at ?dst 0 = Inr ?d0" by (simp add: dim_at_def example_tile_def)
  have h4: "dim_at ?dst 1 = Inr ?d1" by (simp add: dim_at_def example_tile_def)
  have facts: "check_stride (stride ?d1)
           (choose_roi_stride (stride ?d1) (recommended_stride (example_driver 64 0 r2 0 rf) ?dev ?d0 ?d1)) = Inr ()"
    "desc_pool_get (allocator (example_driver 64 0 r2 0 rf)) [] = (4096, ?pool1, ?ev)"
    "transfer_parm ?dev ?src ?dst ?d0 ?d1
           (promote (u16W (walk_size (example_driver 64 0 r2 0 rf) ?dev ?d0 ?d1)))
           (promote (u16H (walk_size (example_driver 64 0 r2 0 rf) ?dev ?d0 ?d1)))
           (choose_roi_stride (stride ?d1) (recommended_stride (example_driver 64 0 r2 0 rf) ?dev ?d0 ?d1)) 4096 = Inr ?parm"
    "halide_hexagon_allocate_from_dma_pool (example_driver 64 0 r2 0 rf) (dma_engine ?dev) = 500"
    for r2 rf
    by (simp_all add: wrapper_eval)
  have nz: "(4096::nat) \<noteq> 0" "(500::nat) \<noteq> 0" by simp_all
  note t = transfer_exit_paths [OF h1 h2 h3 h4 facts(1) facts(2) nz(1) facts(3) facts(4) nz(2)]
  have a: "nDmaWrapper_DmaTransferSetup (example_driver 64 0 r2 0 rf) 500 ?parm = QURT_EOK"
    "nDmaWrapper_Move (example_driver 64 0 r2 0 rf) 500 = r2"
    "nDmaWrapper_Wait (example_driver 64 0 r2 0 rf) 500 = QURT_EOK"
    "halide_hexagon_free_to_dma_pool (example_driver 64 0 r2 0 rf) 500 h = rf"
    "dma_engine ?dev = 7"
    for r2 rf h
    by (simp_all add: example_driver_def example_handle_def QURT_EOK_def)
  from t [of 1 halide_error_code_success] t [of 0 halide_error_code_generic_error]
  show ?thesis
    by (simp add: a) (simp add: QURT_EOK_def)
qed

subsection \<open>Preparing a buffer for a copy\<close>

lemma wrap_native_frame_height:
  assumes "halide_hexagon_dma_device_wrap_native ok b handle = Inr (st, buf)"
    and "dim_at b 1 = Inr b1" and "device buf = Some dev"
  shows "frame_height dev = extent b1"
proof -
  from assms(1) have ok: "ok" "device b = None"
    by (auto simp: halide_hexagon_dma_device_wrap_native_def malloc_device_handle_def
          halide_assert_def seq_def split: if_splits)
  from assms(1) obtain b0 where b0: "dim_at b 0 = Inr b0"
    by (cases "dim_at b 0")
       (auto simp: halide_hexagon_dma_device_wrap_native_def malloc_device_handle_def
          halide_assert_def seq_def split: if_splits)
  from assms ok b0 show ?thesis
    by (auto simp: halide_hexagon_dma_device_wrap_native_def malloc_device_handle_def
          halide_assert_def seq_def)
qed

text \<open>
  C9. Both prepare functions change, in the handle of the buffer, the engine, the tiling
  flag, the format, the direction flag and the frame height, and nothing else; the frame
  height is doubled for the four chroma formats and kept for every other format. For a
  buffer that was just wrapped, the frame height that the chroma read formula then takes
  is twice the extent of dimension 1 of the wrapped buffer.
\<close>

theorem prepare_for_copy_frame:
  assumes "device buf = Some dev" and "engine \<noteq> 0"
    and "halide_hexagon_get_dma_format image_fmt = Inr f"
  shows "halide_hexagon_dma_prepare_for_copy_to_host buf engine ubwc image_fmt =
           Inr (halide_error_code_success,
                buf\<lparr>device := Some (dev\<lparr>dma_engine := engine, is_ubwc := ubwc, fmt := f,
                                       is_write := False,
                                       frame_height := (if is_chroma f then frame_height dev * 2
                                                        else frame_height dev)\<rparr>)\<rparr>) \<and>
         halide_hexagon_dma_prepare_for_copy_to_device buf engine ubwc image_fmt =
           Inr (halide_error_code_success,
                buf\<lparr>device := Some (dev\<lparr>dma_engine := engine, is_ubwc := ubwc, fmt := f,
                                       is_write := True,
                                       frame_height := (if is_chroma f then frame_height dev * 2
                                                        else frame_height dev)\<rparr>)\<rparr>) \<and>
         (\<forall>b handle st b1 buf' dev' h y.
            halide_hexagon_dma_device_wrap_native True b handle = Inr (st, buf) \<and>
            dim_at b 1 = Inr b1 \<and> is_chroma f \<and>
            halide_hexagon_dma_prepare_for_copy_to_host buf engine ubwc image_fmt =
              Inr (halide_error_code_success, buf') \<and>
            device buf' = Some dev' \<longrightarrow>
              frame_height dev' = extent b1 * 2 \<and>
              uint (snd (chroma_adjust dev' h y)) =
                ((uint y - sint (extent b1) * 2) * 2) mod 2 ^ 16)"
proof (intro conjI allI impI)
  show host: "halide_hexagon_dma_prepare_for_copy_to_host buf engine ubwc image_fmt =
           Inr (halide_error_code_success,
                buf\<lparr>device := Some (dev\<lparr>dma_engine := engine, is_ubwc := ubwc, fmt := f,
                                       is_write := False,
                                       frame_height := (if is_chroma f then frame_height dev * 2
                                                        else frame_height dev)\<rparr>)\<rparr>)"
    using assms
    by (simp add: halide_hexagon_dma_prepare_for_copy_to_host_def dma_prepare_for_copy_def
          seq_def halide_assert_def Let_def)
  show "halide_hexagon_dma_prepare_for_copy_to_device buf engine ubwc image_fmt =
           Inr (halide_error_code_success,
                buf\<lparr>device := Some (dev\<lparr>dma_engine := engine, is_ubwc := ubwc, fmt := f,
                                       is_write := True,
                                       frame_height := (if is_chroma f then frame_height dev * 2
                                                        else frame_height dev)\<rparr>)\<rparr>)"
    using assms
    by (simp add: halide_hexagon_dma_prepare_for_copy_to_device_def dma_prepare_for_copy_def
          seq_def halide_assert_def Let_def)
  fix b handle st b1 buf' dev' h y
  assume a: "halide_hexagon_dma_device_wrap_native True b handle = Inr (st, buf) \<and>
            dim_at b 1 = Inr b1 \<and> is_chroma f \<and>
            halide_hexagon_dma_prepare_for_copy_to_host buf engine ubwc image_fmt =
              Inr (halide_error_code_success, buf') \<and>
            device buf' = Some dev'"
  then have fh: "frame_height dev = extent b1"
    using wrap_native_frame_height assms(1) by blast
  from a host have dev': "dev' = dev\<lparr>dma_engine := engine, is_ubwc := ubwc, fmt := f,
                                   is_write := False, frame_height := frame_height dev * 2\<rparr>"
    by auto
  with fh show "frame_height dev' = extent b1 * 2" by simp
  from dev' fh a have "snd (chroma_adjust dev' h y) = to_uint16 ((promote y - extent b1 * 2) * 2)"
    by (simp add: chroma_adjust_def)
  then show "uint (snd (chroma_adjust dev' h y)) =
                ((uint y - sint (extent b1) * 2) * 2) mod 2 ^ 16"
    by (simp only: to16 [OF w_mul [OF w_sub [OF promote_int w_mul [OF w_var w_two]] w_two]])
qed

theorem prepare_for_copy_frame_witness:
  "halide_hexagon_dma_prepare_for_copy_to_host
     ((example_tile [\<lparr>min_dim = 0, extent = 32, stride = 2\<rparr>,
                     \<lparr>min_dim = 0, extent = 16, stride = 64\<rparr>,
                     \<lparr>min_dim = 0, extent = 2, stride = 1\<rparr>])
        \<lparr>device := Some ((example_handle eDmaFmt_RawData False)
                          \<lparr>dma_engine := 0, frame_height := 16\<rparr>),
         device_interface := Some hexagon_dma_device_interface\<rparr>)
     7 True halide_hexagon_fmt_NV12_UV
   = Inr (halide_error_code_success,
          (example_tile [\<lparr>min_dim = 0, extent = 32, stride = 2\<rparr>,
                         \<lparr>min_dim = 0, extent = 16, stride = 64\<rparr>,
                         \<lparr>min_dim = 0, extent = 2, stride = 1\<rparr>])
            \<lparr>device := Some ((example_handle eDmaFmt_NV12_UV False)
                              \<lparr>dma_engine := 7, is_ubwc := True, frame_height := 32\<rparr>),
             device_interface := Some hexagon_dma_device_interface\<rparr>) \<and>
   halide_hexagon_dma_prepare_for_copy_to_device
     ((example_tile [\<lparr>min_dim = 0, extent = 32, stride = 2\<rparr>,
                     \<lparr>min_dim = 0, extent = 16, stride = 64\<rparr>,
                     \<lparr>min_dim = 0, extent = 2, stride = 1\<rparr>])
        \<lparr>device := Some ((example_handle eDmaFmt_RawData False)
                          \<lparr>dma_engine := 0, frame_height := 16\<rparr>),
         device_interface := Some hexagon_dma_device_interface\<rparr>)
     7 True halide_hexagon_fmt_NV12_Y
   = Inr (halide_error_code_success,
          (example_tile [\<lparr>min_dim = 0, extent = 32, stride = 2\<rparr>,
                         \<lparr>min_dim = 0, extent = 16, stride = 64\<rparr>,
                         \<lparr>min_dim = 0, extent = 2, stride = 1\<rparr>])
            \<lparr>device := Some ((example_handle eDmaFmt_NV12_Y True)
                              \<lparr>dma_engine := 7, is_ubwc := True, frame_height := 16\<rparr>),
             device_interface := Some hexagon_dma_device_interface\<rparr>) \<and>
   uint (snd (chroma_adjust ((example_handle eDmaFmt_NV12_UV False)
                               \<lparr>dma_engine := 7, is_ubwc := True, frame_height := 32\<rparr>)
                16 70))
   = ((70 - 16 * 2) * 2) mod 2 ^ 16"
proof -
  let ?ds = "[\<lparr>min_dim = 0, extent = 32, stride = 2\<rparr>,
              \<lparr>min_dim = 0, extent = 16, stride = 64\<rparr>,
              \<lparr>min_dim = 0, extent = 2, stride = 1\<rparr>]"
  let ?dev = "(example_handle eDmaFmt_RawData False)\<lparr>dma_engine := 0, frame_height := 16\<rparr>"
  let ?buf = "(example_tile ?ds)\<lparr>device := Some ?dev,
                 device_interface := Some hexagon_dma_device_interface\<rparr>"
  let ?dev' = "(example_handle eDmaFmt_NV12_UV False)
                 \<lparr>dma_engine := 7, is_ubwc := True, frame_height := 32\<rparr>"
  let ?buf' = "(example_tile ?ds)\<lparr>device := Some ?dev',
                 device_interface := Some hexagon_dma_device_interface\<rparr>"
  have h1: "device ?buf = Some ?dev" by simp
  have h2: "(7::nat) \<noteq> 0" by simp
  have uv: "halide_hexagon_get_dma_format halide_hexagon_fmt_NV12_UV = Inr eDmaFmt_NV12_UV"
    and yy: "halide_hexagon_get_dma_format halide_hexagon_fmt_NV12_Y = Inr eDmaFmt_NV12_Y"
    by simp_all
  note tu = prepare_for_copy_frame [OF h1 h2 uv, of True]
  note ty = prepare_for_copy_frame [OF h1 h2 yy, of True]
  have e1: "halide_hexagon_dma_prepare_for_copy_to_host ?buf 7 True halide_hexagon_fmt_NV12_UV
              = Inr (halide_error_code_success, ?buf')"
    using tu by (simp add: is_chroma_def example_handle_def example_tile_def)
  have e2: "halide_hexagon_dma_prepare_for_copy_to_device ?buf 7 True halide_hexagon_fmt_NV12_Y
              = Inr (halide_error_code_success,
                     (example_tile ?ds)
                       \<lparr>device := Some ((example_handle eDmaFmt_NV12_Y True)
                              \<lparr>dma_engine := 7, is_ubwc := True, frame_height := 16\<rparr>),
                        device_interface := Some hexagon_dma_device_interface\<rparr>)"
    using ty by (simp add: is_chroma_def example_handle_def example_tile_def)
  have w: "halide_hexagon_dma_device_wrap_native True (example_tile ?ds) 65536
             = Inr (halide_error_code_success, ?buf)"
    by (simp add: halide_hexagon_dma_device_wrap_native_def malloc_device_handle_def seq_def
          halide_assert_def dim_at_def example_tile_def example_handle_def)
  have d: "dim_at (example_tile ?ds) 1 = Inr \<lparr>min_dim = 0, extent = 16, stride = 64\<rparr>"
    by (simp add: dim_at_def example_tile_def)
  have c: "is_chroma eDmaFmt_NV12_UV" by (simp add: is_chroma_def)
  have dv: "device ?buf' = Some ?dev'" by simp
  from tu have "\<forall>b handle st b1 buf' dev' h y.
            halide_hexagon_dma_device_wrap_native True b handle = Inr (st, ?buf) \<and>
            dim_at b 1 = Inr b1 \<and> is_chroma eDmaFmt_NV12_UV \<and>
            halide_hexagon_dma_prepare_for_copy_to_host ?buf 7 True halide_hexagon_fmt_NV12_UV =
              Inr (halide_error_code_success, buf') \<and>
            device buf' = Some dev' \<longrightarrow>
              frame_height dev' = extent b1 * 2 \<and>
              uint (snd (chroma_adjust dev' h y)) =
                ((uint y - sint (extent b1) * 2) * 2) mod 2 ^ 16"
    by blast
  from this w d c e1 dv
  have "uint (snd (chroma_adjust ?dev' 16 70)) =
          ((uint (70::uint16) - sint (extent \<lparr>min_dim = 0, extent = 16, stride = 64\<rparr>) * 2) * 2)
            mod 2 ^ 16"
    by blast
  then have e3: "uint (snd (chroma_adjust ?dev' 16 70)) = ((70 - 16 * 2) * 2) mod 2 ^ 16"
    by simp
  from e1 e2 e3 show ?thesis by simp
qed

subsection \<open>Crop\<close>

text \<open>
  C10. The handle of a crop has the frame pointer, engine, frame width, height and stride,
  flags and format of the handle it was cropped from; its write offsets are those of the
  parent plus the difference of the minima in dimensions 0 and 1, as 16-bit values; its
  read offsets are zero whatever the read offsets of the parent.
\<close>

theorem device_crop_handle:
  assumes "device src = Some src_dev"
    and "dim_at dst 0 = Inr d0" and "dim_at dst 1 = Inr d1"
    and "dim_at src 0 = Inr s0" and "dim_at src 1 = Inr s1"
  shows "\<exists>dst_dev.
           halide_hexagon_dma_device_crop True src dst =
             Inr (halide_error_code_success,
                  dst\<lparr>device_interface := device_interface src, device := Some dst_dev\<rparr>) \<and>
           buffer dst_dev = buffer src_dev \<and>
           dma_engine dst_dev = dma_engine src_dev \<and>
           frame_width dst_dev = frame_width src_dev \<and>
           frame_height dst_dev = frame_height src_dev \<and>
           frame_stride dst_dev = frame_stride src_dev \<and>
           is_ubwc dst_dev = is_ubwc src_dev \<and>
           is_write dst_dev = is_write src_dev \<and>
           fmt dst_dev = fmt src_dev \<and>
           uint (offset_wrx dst_dev) =
             (uint (offset_wrx src_dev) + sint (min_dim d0) - sint (min_dim s0)) mod 2 ^ 16 \<and>
           uint (offset_wry dst_dev) =
             (uint (offset_wry src_dev) + sint (min_dim d1) - sint (min_dim s1)) mod 2 ^ 16 \<and>
           (0 \<le> uint (offset_wrx src_dev) + sint (min_dim d0) - sint (min_dim s0) \<and>
            uint (offset_wrx src_dev) + sint (min_dim d0) - sint (min_dim s0) < 2 ^ 16 \<longrightarrow>
              uint (offset_wrx dst_dev) =
                uint (offset_wrx src_dev) + sint (min_dim d0) - sint (min_dim s0)) \<and>
           (0 \<le> uint (offset_wry src_dev) + sint (min_dim d1) - sint (min_dim s1) \<and>
            uint (offset_wry src_dev) + sint (min_dim d1) - sint (min_dim s1) < 2 ^ 16 \<longrightarrow>
              uint (offset_wry dst_dev) =
                uint (offset_wry src_dev) + sint (min_dim d1) - sint (min_dim s1)) \<and>
           offset_rdx dst_dev = 0 \<and> offset_rdy dst_dev = 0"
proof -
  let ?x = "to_uint16 (promote (offset_wrx src_dev) + min_dim d0 - min_dim s0)"
  let ?y = "to_uint16 (promote (offset_wry src_dev) + min_dim d1 - min_dim s1)"
  let ?d = "\<lparr>buffer = buffer src_dev, offset_rdx = 0, offset_rdy = 0,
             offset_wrx = ?x, offset_wry = ?y,
             dma_engine = dma_engine src_dev, frame_width = frame_width src_dev,
             frame_height = frame_height src_dev, frame_stride = frame_stride src_dev,
             is_ubwc = is_ubwc src_dev, is_write = is_write src_dev, fmt = fmt src_dev\<rparr>"
  have c: "halide_hexagon_dma_device_crop True src dst =
             Inr (halide_error_code_success,
                  dst\<lparr>device_interface := device_interface src, device := Some ?d\<rparr>)"
    using assms
    by (simp add: halide_hexagon_dma_device_crop_def malloc_device_handle_def seq_def)
  have x: "uint ?x = (uint (offset_wrx src_dev) + sint (min_dim d0) - sint (min_dim s0)) mod 2 ^ 16"
    by (rule to16 [OF w_sub [OF w_add [OF promote_int w_var] w_var]])
  have y: "uint ?y = (uint (offset_wry src_dev) + sint (min_dim d1) - sint (min_dim s1)) mod 2 ^ 16"
    by (rule to16 [OF w_sub [OF w_add [OF promote_int w_var] w_var]])
  have x': "uint ?x = uint (offset_wrx src_dev) + sint (min_dim d0) - sint (min_dim s0)"
    if "0 \<le> uint (offset_wrx src_dev) + sint (min_dim d0) - sint (min_dim s0) \<and>
        uint (offset_wrx src_dev) + sint (min_dim d0) - sint (min_dim s0) < 2 ^ 16"
    using that x by (simp add: mod_in_range)
  have y': "uint ?y = uint (offset_wry src_dev) + sint (min_dim d1) - sint (min_dim s1)"
    if "0 \<le> uint (offset_wry src_dev) + sint (min_dim d1) - sint (min_dim s1) \<and>
        uint (offset_wry src_dev) + sint (min_dim d1) - sint (min_dim s1) < 2 ^ 16"
    using that y by (simp add: mod_in_range)
  show ?thesis
    by (rule exI [of _ ?d]) (use c x y x' y' in simp)
qed

theorem device_crop_handle_witness:
  "halide_hexagon_dma_device_crop True
     (example_frame ((example_handle eDmaFmt_NV12_Y True)
                       \<lparr>offset_rdx := 9, offset_rdy := 11, offset_wrx := 3, offset_wry := 4\<rparr>)
        [\<lparr>min_dim = 10, extent = 64, stride = 1\<rparr>, \<lparr>min_dim = 20, extent = 64, stride = 64\<rparr>])
     (example_tile
        [\<lparr>min_dim = 12, extent = 16, stride = 1\<rparr>, \<lparr>min_dim = 25, extent = 16, stride = 64\<rparr>])
   = Inr (halide_error_code_success,
          (example_tile
             [\<lparr>min_dim = 12, extent = 16, stride = 1\<rparr>, \<lparr>min_dim = 25, extent = 16, stride = 64\<rparr>])
            \<lparr>device_interface := Some hexagon_dma_device_interface,
             device := Some ((example_handle eDmaFmt_NV12_Y True)
                               \<lparr>offset_rdx := 0, offset_rdy := 0,
                                offset_wrx := 5, offset_wry := 9\<rparr>)\<rparr>)"
proof -
  let ?sdev = "(example_handle eDmaFmt_NV12_Y True)
                 \<lparr>offset_rdx := 9, offset_rdy := 11, offset_wrx := 3, offset_wry := 4\<rparr>"
  let ?s0 = "\<lparr>min_dim = 10, extent = 64, stride = 1\<rparr>"
  let ?s1 = "\<lparr>min_dim = 20, extent = 64, stride = 64\<rparr>"
  let ?d0 = "\<lparr>min_dim = 12, extent = 16, stride = 1\<rparr>"
  let ?d1 = "\<lparr>min_dim = 25, extent = 16, stride = 64\<rparr>"
  let ?src = "example_frame ?sdev [?s0, ?s1]"
  let ?dst = "example_tile [?d0, ?d1]"
  have h1: "device ?src = Some ?sdev" by (simp add: example_frame_def)
  have h2: "dim_at ?dst 0 = Inr ?d0" and h3: "dim_at ?dst 1 = Inr ?d1"
    by (simp_all add: dim_at_def example_tile_def)
  have h4: "dim_at ?src 0 = Inr ?s0" and h5: "dim_at ?src 1 = Inr ?s1"
    by (simp_all add: dim_at_def example_frame_def)
  from device_crop_handle [OF h1 h2 h3 h4 h5] obtain dst_dev where
    c: "halide_hexagon_dma_device_crop True ?src ?dst =
          Inr (halide_error_code_success,
               ?dst\<lparr>device_interface := device_interface ?src, device := Some dst_dev\<rparr>)"
    and f: "buffer dst_dev = buffer ?sdev" "dma_engine dst_dev = dma_engine ?sdev"
      "frame_width dst_dev = frame_width ?sdev" "frame_height dst_dev = frame_height ?sdev"
      "frame_stride dst_dev = frame_stride ?sdev" "is_ubwc dst_dev = is_ubwc ?sdev"
      "is_write dst_dev = is_write ?sdev" "fmt dst_dev = fmt ?sdev"
      "offset_rdx dst_dev = 0" "offset_rdy dst_dev = 0"
    and x: "uint (offset_wrx dst_dev) =
             (uint (offset_wrx ?sdev) + sint (min_dim ?d0) - sint (min_dim ?s0)) mod 2 ^ 16"
    and y: "uint (offset_wry dst_dev) =
             (uint (offset_wry ?sdev) + sint (min_dim ?d1) - sint (min_dim ?s1)) mod 2 ^ 16"
    by blast
  from x have "uint (offset_wrx dst_dev) = uint (5::uint16)" by simp
  then have x5: "offset_wrx dst_dev = 5" by (simp only: word_uint_eq_iff)
  from y have "uint (offset_wry dst_dev) = uint (9::uint16)" by simp
  then have y9: "offset_wry dst_dev = 9" by (simp only: word_uint_eq_iff)
  have "dst_dev = (example_handle eDmaFmt_NV12_Y True)
                    \<lparr>offset_rdx := 0, offset_rdy := 0, offset_wrx := 5, offset_wry := 9\<rparr>"
    using f x5 y9 by (cases dst_dev) (simp add: example_handle_def)
  with c show ?thesis by (simp add: example_frame_def)
qed

end
